theory Spec2Isabelle
  imports Complex_Main
begin

section \<open>The spatial index \<open>pointspy.indexkd.IndexKD\<close>\<close>

text \<open>
  The class \<open>IndexKD\<close> of \<open>src/pointspy/indexkd.py\<close> wraps a
  \<open>scipy.spatial.cKDTree\<close> and an \<open>rtree.Rtree\<close> over one coordinate array.
  Coordinates are modelled as real numbers (the rounding of floating point arithmetic is
  not modelled), a point as the list of its coordinates, and a two-dimensional numpy array
  as the list of its rows.  Numpy arrays are objects that several names may share, so they
  live in an explicit store and are named by their address.  An exception is a value of
  the type \<open>error\<close>; a method that may fill one of the cached attributes of the
  index returns the index next to its result.
\<close>

subsection \<open>Python and numpy values\<close>

type_synonym point = "real list"
type_synonym ndarray = "real list list"
type_synonym ref = nat
type_synonym heap = "ndarray list"

datatype error =
    ValueError | TypeError | AttributeError | IndexError | ZeroDivisionError
  | InvalidShapeError

text \<open>Reading an address of the store; a name always refers to an allocated array.\<close>

definition deref :: "heap \<Rightarrow> ref \<Rightarrow> ndarray" where
  "deref h a = (if a < length h then h ! a else [])"

text \<open>\<open>numpy.ndarray.copy\<close>: a new array with the same contents, at a new address.\<close>

definition np_copy :: "heap \<Rightarrow> ref \<Rightarrow> heap \<times> ref" where
  "np_copy h a = (h @ [deref h a], length h)"

text \<open>An assignment into the array at address \<open>a\<close> by whoever holds that name.\<close>

definition np_assign :: "heap \<Rightarrow> ref \<Rightarrow> ndarray \<Rightarrow> heap" where
  "np_assign h a xs = (if a < length h then h[a := xs] else h)"

text \<open>\<open>a.shape[1]\<close> of a two-dimensional array with at least one row.\<close>

definition shape1 :: "ndarray \<Rightarrow> nat" where
  "shape1 a = (case a of [] \<Rightarrow> 0 | p # _ \<Rightarrow> length p)"

text \<open>
  A Python slice \<open>xs[lo:hi]\<close>: a negative bound counts from the end, and every bound
  is clipped to the length.
\<close>

definition clip_index :: "nat \<Rightarrow> int \<Rightarrow> nat" where
  "clip_index n i = (if i < 0 then nat (max 0 (int n + i)) else min n (nat i))"

definition pyslice :: "int \<Rightarrow> int \<Rightarrow> 'a list \<Rightarrow> 'a list" where
  "pyslice lo hi xs =
     (let l = clip_index (length xs) lo; u = clip_index (length xs) hi
      in take (u - l) (drop l xs))"

text \<open>
  Subscription \<open>xs[i]\<close> of a sequence of length \<open>n\<close>: the positions
  \<open>-n, \<dots>, -1\<close> name the entries from the end, anything outside \<open>[-n, n)\<close>
  raises \<open>IndexError\<close>.
\<close>

definition pyindex :: "'a list \<Rightarrow> int \<Rightarrow> error + 'a" where
  "pyindex xs i =
     (if 0 \<le> i \<and> i < int (length xs) then Inr (xs ! nat i)
      else if i < 0 \<and> - int (length xs) \<le> i then Inr (xs ! nat (int (length xs) + i))
      else Inl IndexError)"

text \<open>\<open>range(m)\<close>, empty when \<open>m\<close> is not positive.\<close>

definition py_range :: "int \<Rightarrow> nat list" where
  "py_range m = [0..<nat m]"

text \<open>The radii and thresholds of the claims are Python numbers, the bulk size an \<open>int\<close>.\<close>

definition isinstance_Number :: "real \<Rightarrow> bool" where
  "isinstance_Number r = True"

definition isinstance_int :: "int \<Rightarrow> bool" where
  "isinstance_int i = True"

text \<open>A list comprehension over a function that may raise stops at the first error.\<close>

fun mapE :: "('a \<Rightarrow> error + 'b) \<Rightarrow> 'a list \<Rightarrow> error + 'b list" where
  "mapE f [] = Inr []"
| "mapE f (x # xs) =
     (case f x of
        Inl e \<Rightarrow> Inl e
      | Inr y \<Rightarrow> (case mapE f xs of Inl e \<Rightarrow> Inl e | Inr ys \<Rightarrow> Inr (y # ys)))"

text \<open>
  \<open>numpy.intersect1d\<close>: the sorted values that occur in both arrays, each once.
\<close>

definition intersect1d :: "nat list \<Rightarrow> nat list \<Rightarrow> nat list" where
  "intersect1d a b = sort (remdups (filter (\<lambda>x. x \<in> set b) a))"

subsection \<open>The kd-tree of scipy\<close>

text \<open>
  \<open>scipy.spatial.cKDTree\<close> is a library outside the repository.  Its documented
  contract is modelled by exhaustive search over the indexed array: the tree is built with
  \<open>copy_data=False\<close>, so it holds the address of the array, not a copy.  The
  keyword arguments that the index forwards are left at their defaults (Euclidean distance,
  exact search).

  The contract leaves two things to the layout of the tree: the order of the identifiers
  of a ball around a single point (\<open>return_sorted=None\<close> sorts the lists of a batch of
  points only), and the order of neighbours at the same distance.  The docstrings of the
  repository show both: \<open>ball((3, 3), 1)\<close> prints \<open>[32, 34, 33, 43, 23]\<close>, and
  \<open>closest(3)\<close> prints the neighbour 4 where the points 2, 4 and 13 are equally near.
  So the layout is a parameter of the model, a \<open>traversal\<close>: \<open>visit x i\<close> is the
  rank at which a search from the point \<open>x\<close> meets the stored point \<open>i\<close>; points of
  the same rank are met in the order of their identifiers.  A statement below that leaves
  \<open>visit\<close> free holds for every traversal.
\<close>

type_synonym traversal = "point \<Rightarrow> nat \<Rightarrow> nat"

record cKDTree =
  kd_data :: ref
  kd_leafsize :: int
  kd_balanced_tree :: bool
  kd_compact_nodes :: bool

definition sqdist :: "point \<Rightarrow> point \<Rightarrow> real" where
  "sqdist x y = sum_list (map (\<lambda>(a, b). (a - b) * (a - b)) (zip x y))"

definition distance :: "point \<Rightarrow> point \<Rightarrow> real" where
  "distance x y = sqrt (sqdist x y)"

text \<open>\<open>distance x y \<le> r\<close>, decided without the square root.\<close>

definition within_radius :: "point \<Rightarrow> real \<Rightarrow> point \<Rightarrow> bool" where
  "within_radius x r y = (0 \<le> r \<and> sqdist x y \<le> r * r)"

text \<open>
  The identifiers of the points of the tree within distance \<open>r\<close> of \<open>x\<close>, in ascending
  order; a point of another dimension than the tree is refused.
\<close>

definition ball_points :: "heap \<Rightarrow> cKDTree \<Rightarrow> point \<Rightarrow> real \<Rightarrow> error + nat list" where
  "ball_points h t x r =
     (if length x \<noteq> shape1 (deref h (kd_data t)) then Inl ValueError
      else Inr (filter (\<lambda>i. within_radius x r (deref h (kd_data t) ! i))
                  [0..<length (deref h (kd_data t))]))"

text \<open>
  \<open>query_ball_point\<close> at one point (a one-dimensional argument): the identifiers in
  the order in which the search meets them.
\<close>

definition query_ball_point ::
  "traversal \<Rightarrow> heap \<Rightarrow> cKDTree \<Rightarrow> point \<Rightarrow> real \<Rightarrow> error + nat list" where
  "query_ball_point visit h t x r = map_sum id (sort_key (visit x)) (ball_points h t x r)"

text \<open>
  \<open>query_ball_point\<close> at the rows of a two-dimensional argument: one list per row,
  each in ascending order.
\<close>

definition query_ball_points ::
  "heap \<Rightarrow> cKDTree \<Rightarrow> ndarray \<Rightarrow> real \<Rightarrow> error + nat list list" where
  "query_ball_points h t xs r = mapE (\<lambda>x. ball_points h t x r) xs"

text \<open>
  A distance reported by \<open>query\<close>; a missing neighbour has the distance \<open>inf\<close> and
  the identifier \<open>n\<close>.
\<close>

datatype dist = Finite real | Infinity

text \<open>
  \<open>query\<close> at one point: the \<open>k\<close> nearest points by ascending distance.  The sort
  by distance is stable, so points at the same distance stay in the order in which the
  search meets them.
\<close>

definition query ::
  "traversal \<Rightarrow> heap \<Rightarrow> cKDTree \<Rightarrow> point \<Rightarrow> nat \<Rightarrow> error + (dist list \<times> nat list)" where
  "query visit h t x k =
     (if length x \<noteq> shape1 (deref h (kd_data t)) then Inl ValueError
      else
        (let n = length (deref h (kd_data t));
             nearest = take k (sort_key (\<lambda>i. sqdist x (deref h (kd_data t) ! i))
                                 (sort_key (visit x) [0..<n]))
         in Inr (map (\<lambda>i. Finite (distance x (deref h (kd_data t) ! i))) nearest
                   @ replicate (k - n) Infinity,
                 nearest @ replicate (k - n) n)))"

text \<open>\<open>query\<close> at the rows of a two-dimensional argument: one pair of rows per point.\<close>

definition query_rows ::
  "traversal \<Rightarrow> heap \<Rightarrow> cKDTree \<Rightarrow> ndarray \<Rightarrow> nat \<Rightarrow>
   error + (dist list \<times> nat list) list" where
  "query_rows visit h t xs k = mapE (\<lambda>x. query visit h t x k) xs"

subsection \<open>The R-tree of the \<open>rtree\<close> package\<close>

text \<open>
  \<open>rtree.Rtree\<close> is a library outside the repository as well.  An entry is an
  identifier, a bounding box (the minima, then the maxima) and a stored object;
  \<open>intersection(extent, objects='raw')\<close> gives the stored objects of the entries whose
  box meets the extent, bounds included.
\<close>

record Rtree =
  rt_dimension :: nat
  rt_entries :: "(nat \<times> real list \<times> nat) list"

definition boxes_meet :: "nat \<Rightarrow> real list \<Rightarrow> real list \<Rightarrow> bool" where
  "boxes_meet d a b = list_all (\<lambda>j. a ! j \<le> b ! (d + j) \<and> b ! j \<le> a ! (d + j)) [0..<d]"

definition intersection :: "Rtree \<Rightarrow> real list \<Rightarrow> error + nat list" where
  "intersection t extent =
     (if length extent \<noteq> 2 * rt_dimension t then Inl ValueError
      else Inr (map (\<lambda>(i, bb, obj). obj)
                  (filter (\<lambda>(i, bb, obj). boxes_meet (rt_dimension t) bb extent) (rt_entries t))))"

subsection \<open>The modules \<open>assertion\<close> and \<open>transformation\<close>\<close>

text \<open>
  Modelled from the spec: \<open>assertion.ensure_coords\<close>, which is not among the sources.
  The coordinate input must be a rectangular array of \<open>n\<close> points with \<open>k \<ge> 1\<close>
  coordinates each; ragged rows and zero points are rejected with
  \<open>InvalidShapeError\<close>.  An array that passes is returned as it is (the same object).
\<close>

definition ensure_coords :: "heap \<Rightarrow> ref \<Rightarrow> error + ref" where
  "ensure_coords h a =
     (if deref h a = [] then Inl InvalidShapeError
      else if shape1 (deref h a) = 0 then Inl InvalidShapeError
      else if list_all (\<lambda>p. length p = shape1 (deref h a)) (deref h a) then Inr a
      else Inl InvalidShapeError)"

text \<open>
  Modelled from the spec: \<open>transformation.i_matrix\<close>, which is not among the sources:
  the identity transform of \<open>k\<close>-dimensional points, a \<open>(k+1) \<times> (k+1)\<close> matrix.
\<close>

definition i_matrix :: "nat \<Rightarrow> ndarray" where
  "i_matrix k = map (\<lambda>i. map (\<lambda>j. if i = j then 1 else 0) [0..<k + 1]) [0..<k + 1]"

subsection \<open>The index\<close>

text \<open>
  The attributes of an \<open>IndexKD\<close> object.  \<open>_kd_tree\<close>, \<open>_r_tree\<close> and
  \<open>_NN\<close> exist only once they have been computed (\<open>hasattr\<close>), so they are optional.
\<close>

record IndexKD =
  self_coords :: ref
  self_transform :: ndarray
  self_leafsize :: int
  self_balanced :: bool
  self_compact :: bool
  self_kd_tree :: "cKDTree option"
  self_r_tree :: "Rtree option"
  self_NN :: "(dist list \<times> nat list) option"

text \<open>
  \<open>__init__\<close>.  \<open>assertion.ensure_tmatrix\<close> and \<open>transformation.transform\<close>
  are not among the sources and are taken as parameters; the transformed coordinates are a
  new array.  \<open>leafsize\<close> is an \<open>int\<close> and \<open>quickbuild\<close> a \<open>bool\<close>, so
  the second check of the source cannot fail.
\<close>

definition IndexKD_init ::
  "(ndarray \<Rightarrow> error + ndarray) \<Rightarrow> (ndarray \<Rightarrow> ndarray \<Rightarrow> error + ndarray) \<Rightarrow>
   heap \<Rightarrow> ref \<Rightarrow> ndarray option \<Rightarrow> int \<Rightarrow> bool \<Rightarrow> error + heap \<times> IndexKD" where
  "IndexKD_init ensure_tmatrix transformation_transform h coords transform leafsize quickbuild =
     (case ensure_coords h coords of
        Inl e \<Rightarrow> Inl e
      | Inr c \<Rightarrow>
         (case np_copy h c of
            (h1, coords1) \<Rightarrow>
              if \<not> isinstance_int leafsize \<and> leafsize > 0 then Inl ValueError
              else
                (case transform of
                   None \<Rightarrow>
                     Inr (h1,
                       \<lparr>self_coords = coords1,
                        self_transform = i_matrix (shape1 (deref h1 coords1)),
                        self_leafsize = leafsize,
                        self_balanced = (\<not> quickbuild),
                        self_compact = (\<not> quickbuild),
                        self_kd_tree = None, self_r_tree = None, self_NN = None\<rparr>)
                 | Some T \<Rightarrow>
                     (case ensure_tmatrix T of
                        Inl e \<Rightarrow> Inl e
                      | Inr T1 \<Rightarrow>
                         (case transformation_transform (deref h1 coords1) T1 of
                            Inl e \<Rightarrow> Inl e
                          | Inr c2 \<Rightarrow>
                             Inr (h1 @ [c2],
                               \<lparr>self_coords = length h1,
                                self_transform = T1,
                                self_leafsize = leafsize,
                                self_balanced = (\<not> quickbuild),
                                self_compact = (\<not> quickbuild),
                                self_kd_tree = None, self_r_tree = None,
                                self_NN = None\<rparr>))))))"

text \<open>The properties \<open>coords\<close>, \<open>dim\<close> and \<open>__len__\<close>.\<close>

definition coords :: "heap \<Rightarrow> IndexKD \<Rightarrow> ndarray" where
  "coords h self = deref h (self_coords self)"

definition dim_k :: "heap \<Rightarrow> IndexKD \<Rightarrow> nat" where
  "dim_k h self = shape1 (coords h self)"

definition len :: "heap \<Rightarrow> IndexKD \<Rightarrow> nat" where
  "len h self = length (coords h self)"

text \<open>
  The property \<open>kd_tree\<close>: the tree is built when the attribute \<open>_kd_tree\<close> is
  missing, and stored; otherwise the stored tree is returned.
\<close>

definition kd_tree :: "IndexKD \<Rightarrow> cKDTree \<times> IndexKD" where
  "kd_tree self =
     (case self_kd_tree self of
        Some t \<Rightarrow> (t, self)
      | None \<Rightarrow>
         (let t = \<lparr>kd_data = self_coords self, kd_leafsize = self_leafsize self,
                   kd_balanced_tree = self_balanced self,
                   kd_compact_nodes = self_compact self\<rparr>
          in (t, self\<lparr>self_kd_tree := Some t\<rparr>)))"

text \<open>
  The property \<open>r_tree\<close>.  \<open>dim\<close> is itself a property, so \<open>self.dim\<close> is
  already the integer and \<open>self.dim()\<close> calls an \<open>int\<close>, which raises
  \<open>TypeError\<close>.
\<close>

definition call_int :: "nat \<Rightarrow> error + nat" where
  "call_int n = Inl TypeError"

definition r_tree :: "heap \<Rightarrow> IndexKD \<Rightarrow> (error + Rtree) \<times> IndexKD" where
  "r_tree h self =
     (case self_r_tree self of
        Some t \<Rightarrow> (Inr t, self)
      | None \<Rightarrow>
         (case call_int (dim_k h self) of
            Inl e \<Rightarrow> (Inl e, self)
          | Inr d \<Rightarrow>
             (let index = [0..<d] @ [0..<d];
                  t = \<lparr>rt_dimension = d,
                       rt_entries = map (\<lambda>(i, coord). (i, map (\<lambda>j. coord ! j) index, i))
                                   (zip [0..<len h self] (coords h self))\<rparr>
              in (Inr t, self\<lparr>self_r_tree := Some t\<rparr>))))"

subsection \<open>Ball queries\<close>

text \<open>
  The argument \<open>coords\<close> of a query is a single point (a tuple, a list or a
  one-dimensional array of numbers), a two-dimensional \<open>numpy.ndarray\<close> of points, or
  a plain Python sequence of points that is not an \<open>ndarray\<close>.  A radius is a number
  or an iterable of numbers.  A ball query answers with one list of identifiers or with a
  list of such lists.
\<close>

datatype query_coords = Point point | Array ndarray | Points "point list"

datatype radius = Scalar real | Radii "real list"

datatype ball_result = Ids "nat list" | IdLists "nat list list"

text \<open>
  \<open>ball_iter\<close>: the generator, drained.  The loop runs over
  \<open>range(coords.shape[0] // bulk + 1)\<close> and queries the rows
  \<open>coords[bulk * i : bulk * (i + 1), :self.dim]\<close>.  The check of \<open>bulk\<close> reads
  \<open>not isinstance(bulk, int) and bulk > 0\<close>; the floor division by a zero bulk size
  raises \<open>ZeroDivisionError\<close>.
\<close>

fun ball_iter_loop ::
  "heap \<Rightarrow> IndexKD \<Rightarrow> ndarray \<Rightarrow> real \<Rightarrow> int \<Rightarrow> nat list \<Rightarrow>
   (error + nat list list) \<times> IndexKD" where
  "ball_iter_loop h self cs r bulk [] = (Inr [], self)"
| "ball_iter_loop h self cs r bulk (i # is) =
     (case kd_tree self of
        (t, self1) \<Rightarrow>
          (case query_ball_points h t
                  (map (take (dim_k h self1))
                     (pyslice (bulk * int i) (bulk * (int i + 1)) cs)) r of
             Inl e \<Rightarrow> (Inl e, self1)
           | Inr nIds \<Rightarrow>
               apfst (map_sum id (\<lambda>rest. nIds @ rest))
                 (ball_iter_loop h self1 cs r bulk is)))"

definition ball_iter ::
  "heap \<Rightarrow> IndexKD \<Rightarrow> ndarray \<Rightarrow> real \<Rightarrow> int \<Rightarrow> (error + nat list list) \<times> IndexKD" where
  "ball_iter h self cs r bulk =
     (if \<not> isinstance_int bulk \<and> bulk > 0 then (Inl ValueError, self)
      else if bulk = 0 then (Inl ZeroDivisionError, self)
      else ball_iter_loop h self cs r bulk (py_range (int (length cs) div bulk + 1)))"

text \<open>\<open>balls_iter\<close>, drained: one query per pair of \<open>zip(coords, radii)\<close>.\<close>

fun balls_iter ::
  "traversal \<Rightarrow> heap \<Rightarrow> IndexKD \<Rightarrow> (point \<times> real) list \<Rightarrow>
   (error + nat list list) \<times> IndexKD" where
  "balls_iter visit h self [] = (Inr [], self)"
| "balls_iter visit h self ((coord, r) # rest) =
     (case kd_tree self of
        (t, self1) \<Rightarrow>
          (case query_ball_point visit h t (take (dim_k h self1) coord) r of
             Inl e \<Rightarrow> (Inl e, self1)
           | Inr nIds \<Rightarrow>
               apfst (map_sum id (\<lambda>rest. nIds # rest)) (balls_iter visit h self1 rest)))"

text \<open>
  \<open>ball\<close>.  The bulk branch is taken for a two-dimensional \<open>ndarray\<close> only
  (\<open>isinstance(coords, np.ndarray) and len(coords.shape) > 1\<close>); everything else reaches
  the last branch, where \<open>coords[:self.dim]\<close> keeps the first \<open>dim\<close> entries of
  the argument.  With iterable radii and a single point, \<open>zip\<close> pairs the numbers of the
  point with the radii, and slicing a number raises \<open>TypeError\<close>.
\<close>

definition ball ::
  "traversal \<Rightarrow> heap \<Rightarrow> IndexKD \<Rightarrow> query_coords \<Rightarrow> radius \<Rightarrow> int \<Rightarrow>
   (error + ball_result) \<times> IndexKD" where
  "ball visit h self cs r bulk =
     (case r of
        Radii rs \<Rightarrow>
          (case cs of
             Array a \<Rightarrow> apfst (map_sum id IdLists) (balls_iter visit h self (zip a rs))
           | Points ps \<Rightarrow> apfst (map_sum id IdLists) (balls_iter visit h self (zip ps rs))
           | Point x \<Rightarrow>
               if x = [] \<or> rs = [] then (Inr (IdLists []), self)
               else (Inl TypeError, snd (kd_tree self)))
      | Scalar r1 \<Rightarrow>
          (case cs of
             Array a \<Rightarrow> apfst (map_sum id IdLists) (ball_iter h self a r1 bulk)
           | Point x \<Rightarrow>
               (case kd_tree self of
                  (t, self1) \<Rightarrow>
                    (map_sum id Ids (query_ball_point visit h t (take (dim_k h self1) x) r1),
                     self1))
           | Points ps \<Rightarrow>
               (case kd_tree self of
                  (t, self1) \<Rightarrow>
                    (map_sum id IdLists
                       (query_ball_points h t (take (dim_k h self1) ps) r1), self1))))"

text \<open>\<open>numpy\<close> flattens the arguments of \<open>intersect1d\<close>.\<close>

fun flatten :: "ball_result \<Rightarrow> nat list" where
  "flatten (Ids l) = l"
| "flatten (IdLists ls) = concat ls"

text \<open>
  \<open>sphere\<close>.  Both checks read \<open>not isinstance(r, Number) and ...\<close>.  The two ball
  queries use the default bulk size of \<open>ball\<close>.
\<close>

definition sphere ::
  "traversal \<Rightarrow> heap \<Rightarrow> IndexKD \<Rightarrow> point \<Rightarrow> real \<Rightarrow> real \<Rightarrow>
   (error + nat list) \<times> IndexKD" where
  "sphere visit h self coord r_min r_max =
     (if \<not> isinstance_Number r_min \<and> r_min > 0 then (Inl ValueError, self)
      else if \<not> isinstance_Number r_max \<and> r_max > r_min then (Inl ValueError, self)
      else
        (case ball visit h self (Point (take (dim_k h self) coord)) (Scalar r_min) 100000 of
           (Inl e, self1) \<Rightarrow> (Inl e, self1)
         | (Inr inner, self1) \<Rightarrow>
             (case ball visit h self1 (Point (take (dim_k h self1) coord)) (Scalar r_max)
                     100000 of
                (Inl e, self2) \<Rightarrow> (Inl e, self2)
              | (Inr outer, self2) \<Rightarrow>
                  (Inr (intersect1d (flatten outer) (flatten inner)), self2))))"

subsection \<open>Nearest neighbour queries\<close>

text \<open>
  The number of neighbours is an \<open>int\<close> or an iterable.  \<open>knn\<close> answers with the
  distances and identifiers of one point, or with one row of each per point.  For
  \<open>k = 1\<close> scipy drops the last axis of its answer; the model keeps rows of length
  \<open>k\<close>.
\<close>

datatype neighbours = KScalar nat | KList "nat list"

datatype knn_result =
    KnnPoint "dist list" "nat list"
  | KnnRows "dist list list" "nat list list"

text \<open>
  \<open>knn_iter\<close>, drained: the same loop as \<open>ball_iter\<close> over
  \<open>self.kd_tree.query\<close>, yielding one pair \<open>(d, n)\<close> per row.
\<close>

fun knn_iter_loop ::
  "traversal \<Rightarrow> heap \<Rightarrow> IndexKD \<Rightarrow> ndarray \<Rightarrow> nat \<Rightarrow> int \<Rightarrow> nat list \<Rightarrow>
   (error + (dist list \<times> nat list) list) \<times> IndexKD" where
  "knn_iter_loop visit h self cs k bulk [] = (Inr [], self)"
| "knn_iter_loop visit h self cs k bulk (i # is) =
     (case kd_tree self of
        (t, self1) \<Rightarrow>
          (case query_rows visit h t
                  (map (take (dim_k h self1))
                     (pyslice (bulk * int i) (bulk * (int i + 1)) cs)) k of
             Inl e \<Rightarrow> (Inl e, self1)
           | Inr rows \<Rightarrow>
               apfst (map_sum id (\<lambda>rest. rows @ rest))
                 (knn_iter_loop visit h self1 cs k bulk is)))"

definition knn_iter ::
  "traversal \<Rightarrow> heap \<Rightarrow> IndexKD \<Rightarrow> ndarray \<Rightarrow> nat \<Rightarrow> int \<Rightarrow>
   (error + (dist list \<times> nat list) list) \<times> IndexKD" where
  "knn_iter visit h self cs k bulk =
     (if \<not> isinstance_int bulk \<and> bulk > 0 then (Inl ValueError, self)
      else if bulk = 0 then (Inl ZeroDivisionError, self)
      else knn_iter_loop visit h self cs k bulk (py_range (int (length cs) div bulk + 1)))"

text \<open>
  \<open>knn\<close>.  With an iterable \<open>k\<close> the source calls
  \<open>self.knns_iter(coords, k=k)\<close>, whose parameter is named \<open>ks\<close>: the call raises
  \<open>TypeError\<close>.  In the bulk branch \<open>dists, nIds = zip(*...)\<close> unpacks two values,
  which raises \<open>ValueError\<close> when the generator yields nothing.
\<close>

definition knn ::
  "traversal \<Rightarrow> heap \<Rightarrow> IndexKD \<Rightarrow> query_coords \<Rightarrow> neighbours \<Rightarrow> int \<Rightarrow>
   (error + knn_result) \<times> IndexKD" where
  "knn visit h self cs k bulk =
     (case k of
        KList ks \<Rightarrow> (Inl TypeError, self)
      | KScalar k1 \<Rightarrow>
          (case cs of
             Array a \<Rightarrow>
               (case knn_iter visit h self a k1 bulk of
                  (Inl e, self1) \<Rightarrow> (Inl e, self1)
                | (Inr rows, self1) \<Rightarrow>
                    if rows = [] then (Inl ValueError, self1)
                    else (Inr (KnnRows (map fst rows) (map snd rows)), self1))
           | Point x \<Rightarrow>
               (case kd_tree self of
                  (t, self1) \<Rightarrow>
                    (map_sum id (\<lambda>(dists, nIds). KnnPoint dists nIds)
                       (query visit h t (take (dim_k h self1) x) k1), self1))
           | Points ps \<Rightarrow>
               (case kd_tree self of
                  (t, self1) \<Rightarrow>
                    (map_sum id (\<lambda>rows. KnnRows (map fst rows) (map snd rows))
                       (query_rows visit h t (take (dim_k h self1) ps) k1), self1))))"

text \<open>
  \<open>closest\<close>.  \<open>ids\<close> is one identifier or a list of identifiers (it has
  \<open>__len__\<close>); \<open>self.coords[ids, :]\<close> is then a one-dimensional or a
  two-dimensional array, and raises \<open>IndexError\<close> for an identifier that is not
  stored.  Identifiers are natural numbers; Python's negative indices are not modelled.
  The answer is the second column of a query for two neighbours.
\<close>

datatype ids = OneId nat | IdList "nat list"

datatype closest_result = Nearest dist nat | NearestColumns "dist list" "nat list"

definition second :: "'a list \<Rightarrow> error + 'a" where
  "second xs = pyindex xs 1"

definition closest ::
  "traversal \<Rightarrow> heap \<Rightarrow> IndexKD \<Rightarrow> ids \<Rightarrow> (error + closest_result) \<times> IndexKD" where
  "closest visit h self is =
     (case is of
        OneId i \<Rightarrow>
          (if len h self \<le> i then (Inl IndexError, self)
           else
             (case knn visit h self (Point (coords h self ! i)) (KScalar 2) 100000 of
                (Inl e, self1) \<Rightarrow> (Inl e, self1)
              | (Inr (KnnPoint dists nIds), self1) \<Rightarrow>
                  (case (second dists, second nIds) of
                     (Inr d, Inr n) \<Rightarrow> (Inr (Nearest d n), self1)
                   | _ \<Rightarrow> (Inl IndexError, self1))
              | (Inr (KnnRows dists nIds), self1) \<Rightarrow> (Inl IndexError, self1)))
      | IdList l \<Rightarrow>
          (if \<not> list_all (\<lambda>i. i < len h self) l then (Inl IndexError, self)
           else
             (case knn visit h self (Array (map (\<lambda>i. coords h self ! i) l)) (KScalar 2)
                     100000 of
                (Inl e, self1) \<Rightarrow> (Inl e, self1)
              | (Inr (KnnRows dists nIds), self1) \<Rightarrow>
                  (case (mapE second dists, mapE second nIds) of
                     (Inr ds, Inr ns) \<Rightarrow> (Inr (NearestColumns ds ns), self1)
                   | _ \<Rightarrow> (Inl IndexError, self1))
              | (Inr (KnnPoint dists nIds), self1) \<Rightarrow> (Inl IndexError, self1))))"

text \<open>
  The property \<open>nn\<close>: the second column of a query for two neighbours at every stored
  point, computed once and kept in \<open>_NN\<close>.
\<close>

definition nn ::
  "traversal \<Rightarrow> heap \<Rightarrow> IndexKD \<Rightarrow> (error + dist list \<times> nat list) \<times> IndexKD" where
  "nn visit h self =
     (case self_NN self of
        Some v \<Rightarrow> (Inr v, self)
      | None \<Rightarrow>
         (case knn visit h self (Array (coords h self)) (KScalar 2) 100000 of
            (Inl e, self1) \<Rightarrow> (Inl e, self1)
          | (Inr (KnnRows dists ids), self1) \<Rightarrow>
              (case (mapE second dists, mapE second ids) of
                 (Inr ds, Inr ns) \<Rightarrow> (Inr (ds, ns), self1\<lparr>self_NN := Some (ds, ns)\<rparr>)
               | _ \<Rightarrow> (Inl IndexError, self1))
          | (Inr (KnnPoint dists ids), self1) \<Rightarrow> (Inl IndexError, self1)))"

subsection \<open>Box and slice queries\<close>

text \<open>\<open>box\<close>: the raw objects of the R-tree entries that meet the extent.\<close>

definition box :: "heap \<Rightarrow> IndexKD \<Rightarrow> real list \<Rightarrow> (error + nat list) \<times> IndexKD" where
  "box h self extent =
     (case r_tree h self of
        (Inl e, self1) \<Rightarrow> (Inl e, self1)
      | (Inr t, self1) \<Rightarrow> (intersection t extent, self1))"

text \<open>\<open>bisect.bisect_left\<close> of the Python standard library, a binary search.\<close>

function bisect_left_loop :: "real list \<Rightarrow> real \<Rightarrow> nat \<Rightarrow> nat \<Rightarrow> nat" where
  "bisect_left_loop a x lo hi =
     (if lo < hi
      then (if a ! ((lo + hi) div 2) < x
            then bisect_left_loop a x ((lo + hi) div 2 + 1) hi
            else bisect_left_loop a x lo ((lo + hi) div 2))
      else lo)"
  by pat_completeness auto
termination
  by (relation "measure (\<lambda>(a, x, lo, hi). hi - lo)") auto

definition bisect_left :: "real list \<Rightarrow> real \<Rightarrow> nat" where
  "bisect_left a x = bisect_left_loop a x 0 (length a)"

text \<open>
  \<open>numpy.argsort\<close>: the positions of the values in ascending order of value.  Numpy
  does not fix the order of equal values; the model keeps them in their first order.
\<close>

definition argsort :: "real list \<Rightarrow> nat list" where
  "argsort vs = map snd (sort_key fst (zip vs [0..<length vs]))"

text \<open>
  \<open>slice\<close>.  The three checks read \<open>not isinstance(..) and ...\<close>;
  \<open>self.coords[:, axis]\<close> raises \<open>IndexError\<close> for an axis out of range.
\<close>

definition slice :: "heap \<Rightarrow> IndexKD \<Rightarrow> real \<Rightarrow> real \<Rightarrow> int \<Rightarrow> error + nat list" where
  "slice h self min_th max_th axis =
     (if \<not> isinstance_Number min_th \<and> min_th > 0 then Inl ValueError
      else if \<not> isinstance_Number max_th \<and> max_th > min_th then Inl ValueError
      else if \<not> isinstance_int axis \<and> \<bar>axis\<bar> < int (dim_k h self) then Inl ValueError
      else
        (case mapE (\<lambda>p. pyindex p axis) (coords h self) of
           Inl e \<Rightarrow> Inl e
         | Inr values \<Rightarrow>
             (let order = argsort values;
                  iMin = int (bisect_left (map (\<lambda>i. values ! i) order) min_th) - 1;
                  iMax = int (bisect_left (map (\<lambda>i. values ! i) order) max_th)
              in Inr (sort (pyslice iMin iMax order)))))"

subsection \<open>Filtered ball queries\<close>

text \<open>
  A filter compares the centre \<open>pA\<close> with a candidate \<open>pB\<close>; indexing a point may
  raise.  \<open>ball_cut\<close> keeps the identifiers of the ball whose point passes
  \<open>filter(coord, coords[nId, :])\<close>.
\<close>

definition compareE ::
  "(real \<Rightarrow> real \<Rightarrow> bool) \<Rightarrow> error + real \<Rightarrow> error + real \<Rightarrow> error + bool" where
  "compareE f a b =
     (case a of
        Inl e \<Rightarrow> Inl e
      | Inr x \<Rightarrow> (case b of Inl e \<Rightarrow> Inl e | Inr y \<Rightarrow> Inr (f x y)))"

fun filterE :: "('a \<Rightarrow> error + bool) \<Rightarrow> 'a list \<Rightarrow> error + 'a list" where
  "filterE f [] = Inr []"
| "filterE f (x # xs) =
     (case f x of
        Inl e \<Rightarrow> Inl e
      | Inr b \<Rightarrow>
          (case filterE f xs of
             Inl e \<Rightarrow> Inl e
           | Inr ys \<Rightarrow> Inr (if b then x # ys else ys)))"

definition row :: "heap \<Rightarrow> IndexKD \<Rightarrow> nat \<Rightarrow> error + point" where
  "row h self nId = (if nId < len h self then Inr (coords h self ! nId) else Inl IndexError)"

definition ball_cut ::
  "traversal \<Rightarrow> heap \<Rightarrow> IndexKD \<Rightarrow> point \<Rightarrow> real \<Rightarrow>
   (point \<Rightarrow> point \<Rightarrow> error + bool) \<Rightarrow> (error + nat list) \<times> IndexKD" where
  "ball_cut visit h self coord delta filter_fn =
     (case ball visit h self (Point coord) (Scalar delta) 100000 of
        (Inl e, self1) \<Rightarrow> (Inl e, self1)
      | (Inr nIds, self1) \<Rightarrow>
          (filterE (\<lambda>nId. case row h self1 nId of Inl e \<Rightarrow> Inl e | Inr pB \<Rightarrow> filter_fn coord pB)
             (flatten nIds), self1))"

text \<open>
  The names defined by the class and set by \<open>__init__\<close> and the properties.  Looking up
  any other name on an index raises \<open>AttributeError\<close>.
\<close>

definition IndexKD_attributes :: "string list" where
  "IndexKD_attributes =
     [''__init__'', ''__len__'', ''__iter__'', ''dim'', ''coords'', ''transform'',
      ''kd_tree'', ''r_tree'', ''ball'', ''ball_iter'', ''balls_iter'', ''ball_count'',
      ''sphere'', ''knn'', ''knn_iter'', ''knns_iter'', ''nn'', ''closest'', ''cube'',
      ''box'', ''box_count'', ''slice'', ''ball_cut'', ''upper_ball'', ''lower_ball'',
      ''_leafsize'', ''_balanced'', ''_compact'', ''_coords'', ''_transform'',
      ''_kd_tree'', ''_r_tree'', ''_NN'']"

definition getattr :: "string \<Rightarrow> 'a \<Rightarrow> error + 'a" where
  "getattr name bound = (if name \<in> set IndexKD_attributes then Inr bound else Inl AttributeError)"

text \<open>
  \<open>upper_ball\<close> and \<open>lower_ball\<close> look up \<open>self.ballCut\<close>; the method of the
  class is named \<open>ball_cut\<close>.  The filters are
  \<open>lambda pA, pB: pA[axis] > pB[axis]\<close> and \<open>lambda pA, pB: pA[axis] < pB[axis]\<close>.
\<close>

definition upper_ball ::
  "traversal \<Rightarrow> heap \<Rightarrow> IndexKD \<Rightarrow> point \<Rightarrow> real \<Rightarrow> int \<Rightarrow>
   (error + nat list) \<times> IndexKD" where
  "upper_ball visit h self coord delta axis =
     (case getattr ''ballCut'' (ball_cut visit h self) of
        Inl e \<Rightarrow> (Inl e, self)
      | Inr ballCut \<Rightarrow>
          ballCut coord delta
            (\<lambda>pA pB. compareE (\<lambda>a b. a > b) (pyindex pA axis) (pyindex pB axis)))"

definition lower_ball ::
  "traversal \<Rightarrow> heap \<Rightarrow> IndexKD \<Rightarrow> point \<Rightarrow> real \<Rightarrow> int \<Rightarrow>
   (error + nat list) \<times> IndexKD" where
  "lower_ball visit h self coord delta axis =
     (case getattr ''ballCut'' (ball_cut visit h self) of
        Inl e \<Rightarrow> (Inl e, self)
      | Inr ballCut \<Rightarrow>
          ballCut coord delta
            (\<lambda>pA pB. compareE (\<lambda>a b. a < b) (pyindex pA axis) (pyindex pB axis)))"

subsection \<open>Example indices\<close>

text \<open>
  The index of the docstrings, \<open>np.indices((5, 10)).reshape((2, 50)).T\<close>: point
  \<open>10 * i + j\<close> is \<open>(i, j)\<close>.  The caller's array is at address 0 and the copy that
  the index owns at address 1.
\<close>

definition grid :: ndarray where
  "grid = concat (map (\<lambda>i. map (\<lambda>j. [real i, real j]) [0..<10]) [0..<5])"

definition example_heap :: heap where
  "example_heap = [grid, grid]"

definition example_index :: IndexKD where
  "example_index =
     \<lparr>self_coords = 1, self_transform = i_matrix 2, self_leafsize = 16,
      self_balanced = False, self_compact = False,
      self_kd_tree = None, self_r_tree = None, self_NN = None\<rparr>"

text \<open>
  Two layouts of the tree of that index.  The first meets the points in the order of their
  identifiers.  The second meets the points listed in \<open>docstring_order\<close> first, in
  that order; it is one of the layouts that give the answers printed in the docstrings.
\<close>

definition by_identifier :: traversal where
  "by_identifier x i = i"

definition docstring_order :: "nat list" where
  "docstring_order = [1, 6, 4, 22, 42, 32, 34, 33, 43, 44, 23, 24]"

definition docstring_visit :: traversal where
  "docstring_visit x i = length (takeWhile (\<lambda>j. j \<noteq> i) docstring_order)"

text \<open>Four points with distinct values on the last axis.\<close>

definition column4 :: ndarray where
  "column4 = [[0, 10], [0, 20], [0, 30], [0, 40]]"

text \<open>Three points, the first two at the same place.\<close>

definition twins :: ndarray where
  "twins = [[0, 0], [0, 0], [5, 5]]"

subsection \<open>Reference notions\<close>

text \<open>
  The cached kd-tree of an index, if there is one, was built by the property
  \<open>kd_tree\<close> and so refers to the coordinate array of the index.
\<close>

definition cache_ok :: "IndexKD \<Rightarrow> bool" where
  "cache_ok self =
     (case self_kd_tree self of None \<Rightarrow> True | Some t \<Rightarrow> kd_data t = self_coords self)"

text \<open>All rows of the coordinate array have \<open>dim\<close> entries.\<close>

definition rectangular :: "heap \<Rightarrow> IndexKD \<Rightarrow> bool" where
  "rectangular h self = list_all (\<lambda>p. length p = dim_k h self) (coords h self)"

text \<open>
  The identifiers of the stored points within distance \<open>r\<close> of the first \<open>dim\<close>
  coordinates of \<open>x\<close>, in ascending order.
\<close>

definition ball_ids :: "heap \<Rightarrow> IndexKD \<Rightarrow> point \<Rightarrow> real \<Rightarrow> nat list" where
  "ball_ids h self x r =
     filter (\<lambda>i. within_radius (take (dim_k h self) x) r (coords h self ! i))
       [0..<len h self]"


text \<open>
  The two stored points nearest to \<open>x\<close>, as \<open>query\<close> orders them, and the answer
  of \<open>query\<close> for two neighbours built from them; an index of fewer than two points
  has a missing neighbour.
\<close>

definition nearest2 :: "traversal \<Rightarrow> heap \<Rightarrow> IndexKD \<Rightarrow> point \<Rightarrow> nat list" where
  "nearest2 visit h s x =
     take 2 (sort_key (\<lambda>j. sqdist x (coords h s ! j)) (sort_key (visit x) [0..<len h s]))"

definition answer_row ::
  "traversal \<Rightarrow> heap \<Rightarrow> IndexKD \<Rightarrow> point \<Rightarrow> dist list \<times> nat list" where
  "answer_row visit h s x =
     (map (\<lambda>j. Finite (distance x (coords h s ! j))) (nearest2 visit h s x)
        @ replicate (2 - len h s) Infinity,
      nearest2 visit h s x @ replicate (2 - len h s) (len h s))"

section \<open>Properties\<close>

subsection \<open>The cached kd-tree\<close>

lemma kd_tree_again: "kd_tree (snd (kd_tree s)) = (fst (kd_tree s), snd (kd_tree s))"
  by (simp add: kd_tree_def Let_def split: option.splits)

lemma kd_tree_coords: "self_coords (snd (kd_tree s)) = self_coords s"
  by (simp add: kd_tree_def Let_def split: option.splits)

lemma dim_k_kd_tree: "dim_k h (snd (kd_tree s)) = dim_k h s"
  by (simp add: dim_k_def coords_def kd_tree_coords)

lemma kd_tree_r_tree: "self_r_tree (snd (kd_tree s)) = self_r_tree s"
  by (simp add: kd_tree_def Let_def split: option.splits)

lemma kd_tree_cache_ok: "cache_ok s \<Longrightarrow> cache_ok (snd (kd_tree s))"
  by (simp add: kd_tree_def cache_ok_def Let_def split: option.splits)

lemma kd_tree_data: "cache_ok s \<Longrightarrow> kd_data (fst (kd_tree s)) = self_coords s"
  by (simp add: kd_tree_def cache_ok_def Let_def split: option.splits)

subsection \<open>Chunks of a batch\<close>

lemma mapE_append:
  "mapE f (xs @ ys) =
     (case mapE f xs of
        Inl e \<Rightarrow> Inl e
      | Inr a \<Rightarrow> (case mapE f ys of Inl e \<Rightarrow> Inl e | Inr b \<Rightarrow> Inr (a @ b)))"
  by (induction xs) (auto split: sum.splits)

lemma clip_index_nat: "clip_index n (int j) = min n j"
  by (simp add: clip_index_def)

lemma pyslice_chunk:
  assumes "0 < bulk"
  shows "pyslice (bulk * int i) (bulk * (int i + 1)) xs = take (nat bulk) (drop (nat bulk * i) xs)"
proof -
  define B where "B = nat bulk"
  have B: "bulk = int B" "0 < B" using assms by (simp_all add: B_def)
  have lo: "bulk * int i = int (B * i)" using B by simp
  have hi: "bulk * (int i + 1) = int (B * i + B)" using B by (simp add: algebra_simps)
  have "pyslice (int (B * i)) (int (B * i + B)) xs = take B (drop (B * i) xs)"
    unfolding pyslice_def Let_def clip_index_nat
    by (cases "B * i \<le> length xs") (auto simp: min_def)
  then show ?thesis unfolding lo hi B_def .
qed

lemma concat_chunks:
  "concat (map (\<lambda>i. take B (drop (B * i) xs)) [0..<m]) = take (B * m) xs"
proof (induction m)
  case 0
  show ?case by simp
next
  case (Suc m)
  have "take (B * m + B) xs = take (B * m) xs @ take B (drop (B * m) xs)"
    by (simp add: take_add)
  with Suc show ?case by (simp add: add.commute)
qed

text \<open>The chunks of the loop of \<open>ball_iter\<close> and \<open>knn_iter\<close> cover the batch, in order.\<close>

lemma chunks_cover:
  assumes "0 < bulk"
  shows "concat (map (\<lambda>i. map g (pyslice (bulk * int i) (bulk * (int i + 1)) xs))
           (py_range (int (length xs) div bulk + 1))) = map g xs"
proof -
  define B where "B = nat bulk"
  have B: "bulk = int B" "0 < B" using assms by (simp_all add: B_def)
  have m: "nat (int (length xs) div bulk + 1) = length xs div B + 1"
    using B by (simp add: nat_add_distrib zdiv_int [symmetric] del: of_nat_div)
  have "length xs < B * (length xs div B + 1)"
    using B by (metis dividend_less_times_div mult.commute add.commute mult_Suc_right Suc_eq_plus1 mult_Suc)
  then have all: "take (B * (length xs div B + 1)) xs = xs" by simp
  have "concat (map (\<lambda>i. map g (take B (drop (B * i) xs))) [0..<length xs div B + 1])
        = map g (concat (map (\<lambda>i. take B (drop (B * i) xs)) [0..<length xs div B + 1]))"
    by (simp add: map_concat comp_def)
  also have "\<dots> = map g xs" by (simp only: concat_chunks all)
  finally show ?thesis
    using assms by (simp add: py_range_def m pyslice_chunk B_def)
qed

lemma ball_iter_loop_eq:
  "fst (ball_iter_loop h s cs r bulk is) =
     mapE (\<lambda>x. ball_points h (fst (kd_tree s)) x r)
       (concat (map (\<lambda>i. map (take (dim_k h s))
                            (pyslice (bulk * int i) (bulk * (int i + 1)) cs)) is))"
proof (induction "is" arbitrary: s)
  case Nil
  show ?case by simp
next
  case (Cons i "is")
  obtain t s1 where k: "kd_tree s = (t, s1)" by (cases "kd_tree s")
  have s1: "fst (kd_tree s1) = t" "dim_k h s1 = dim_k h s"
    using kd_tree_again [of s] dim_k_kd_tree [of h s] k by simp_all
  show ?case
    using Cons.IH [of s1] k s1
    by (simp add: query_ball_points_def mapE_append split: sum.splits prod.splits)
qed

lemma knn_iter_loop_eq:
  "fst (knn_iter_loop visit h s cs k bulk is) =
     mapE (\<lambda>x. query visit h (fst (kd_tree s)) x k)
       (concat (map (\<lambda>i. map (take (dim_k h s))
                            (pyslice (bulk * int i) (bulk * (int i + 1)) cs)) is))"
proof (induction "is" arbitrary: s)
  case Nil
  show ?case by simp
next
  case (Cons i "is")
  obtain t s1 where t: "kd_tree s = (t, s1)" by (cases "kd_tree s")
  have s1: "fst (kd_tree s1) = t" "dim_k h s1 = dim_k h s"
    using kd_tree_again [of s] dim_k_kd_tree [of h s] t by simp_all
  show ?case
    using Cons.IH [of s1] t s1
    by (simp add: query_rows_def mapE_append split: sum.splits prod.splits)
qed

lemma ball_iter_unchunked:
  assumes "0 < bulk"
  shows "fst (ball_iter h s cs r bulk) =
     query_ball_points h (fst (kd_tree s)) (map (take (dim_k h s)) cs) r"
  using assms
  by (simp add: ball_iter_def isinstance_int_def ball_iter_loop_eq chunks_cover
      query_ball_points_def)

lemma knn_iter_unchunked:
  assumes "0 < bulk"
  shows "fst (knn_iter visit h s cs k bulk) =
     query_rows visit h (fst (kd_tree s)) (map (take (dim_k h s)) cs) k"
  using assms
  by (simp add: knn_iter_def isinstance_int_def knn_iter_loop_eq chunks_cover query_rows_def)

text \<open>
  C7.  For every index, every batch of query points (the rows of a two-dimensional array)
  and every bulk size of at least 1, \<open>ball_iter\<close> and \<open>knn_iter\<close>, which query the
  kd-tree chunk by chunk and yield the results of the chunks one after the other, give
  exactly the results, point by point, errors included, of one call of the kd-tree on the
  whole batch.
\<close>

theorem chunked_equals_unchunked:
  assumes "1 \<le> bulk"
  shows "fst (ball_iter h self cs r bulk) =
           query_ball_points h (fst (kd_tree self)) (map (take (dim_k h self)) cs) r
       \<and> fst (knn_iter visit h self cs k bulk) =
           query_rows visit h (fst (kd_tree self)) (map (take (dim_k h self)) cs) k"
  using assms by (simp add: ball_iter_unchunked knn_iter_unchunked)

theorem chunked_equals_unchunked_witness:
  "(1::int) \<le> 2
   \<and> fst (ball_iter example_heap example_index [[0, 0], [1, 1], [4, 9]] 1 2) =
       Inr [[0, 1, 10], [1, 10, 11, 12, 21], [39, 48, 49]]
   \<and> fst (knn_iter docstring_visit example_heap example_index [[0, 0], [1, 1], [4, 9]] 1 2) =
       query_rows docstring_visit example_heap (fst (kd_tree example_index))
         (map (take (dim_k example_heap example_index)) [[0, 0], [1, 1], [4, 9]]) 1"
proof -
  have b: "(1::int) \<le> 2" by simp
  have whole:
    "query_ball_points example_heap (fst (kd_tree example_index))
       (map (take (dim_k example_heap example_index)) [[0, 0], [1, 1], [4, 9]]) 1 =
     Inr [[0, 1, 10], [1, 10, 11, 12, 21], [39, 48, 49]]"
    by code_simp
  show ?thesis
    using chunked_equals_unchunked [OF b, of example_heap example_index
        "[[0, 0], [1, 1], [4, 9]]" 1 docstring_visit 1] whole
    by simp
qed

subsection \<open>The ball around a single point\<close>

text \<open>
  The answer of \<open>ball\<close> at a single point is the ball of the tree in the order of the
  traversal; sorted, it is the ascending list of the identifiers in the ball.
\<close>

lemma ball_point:
  "fst (ball visit h s (Point x) (Scalar r) bulk) =
     map_sum id (\<lambda>l. Ids (sort_key (visit (take (dim_k h s) x)) l))
       (ball_points h (fst (kd_tree s)) (take (dim_k h s) x) r)"
proof -
  obtain t s1 where t: "kd_tree s = (t, s1)" by (cases "kd_tree s")
  then have "dim_k h s1 = dim_k h s" using dim_k_kd_tree [of h s] by simp
  with t show ?thesis
    by (cases "ball_points h t (take (dim_k h s) x) r")
      (simp_all add: ball_def query_ball_point_def)
qed

lemma ball_point_state: "snd (ball visit h s (Point x) (Scalar r) bulk) = snd (kd_tree s)"
  by (simp add: ball_def split: prod.splits)

lemma ball_points_sorted: "ball_points h t x r = Inr l \<Longrightarrow> sorted l \<and> distinct l"
  by (auto simp: ball_points_def sorted_wrt_filter split: if_splits)

lemma sort_sort_key: "sorted l \<Longrightarrow> distinct l \<Longrightarrow> sort (sort_key f l) = l"
  by (rule sorted_distinct_set_unique) simp_all

lemma intersect1d_sort_key: "intersect1d (sort_key f a) (sort_key g b) = intersect1d a b"
proof -
  have "set (filter (\<lambda>x. x \<in> set (sort_key g b)) (sort_key f a))
      = set (filter (\<lambda>x. x \<in> set b) a)" by simp
  then have "sorted_list_of_set (set (filter (\<lambda>x. x \<in> set (sort_key g b)) (sort_key f a)))
      = sorted_list_of_set (set (filter (\<lambda>x. x \<in> set b) a))" by (rule arg_cong)
  then show ?thesis
    unfolding intersect1d_def sorted_list_of_set_sort_remdups .
qed

text \<open>
  \<open>sphere\<close> queries the tree for the two balls and intersects them; the order of the
  traversal is lost in \<open>intersect1d\<close>.
\<close>

lemma sphere_eq:
  "fst (sphere visit h s c r_min r_max) =
     (case ball_points h (fst (kd_tree s)) (take (dim_k h s) c) r_min of
        Inl e \<Rightarrow> Inl e
      | Inr inner \<Rightarrow>
          (case ball_points h (fst (kd_tree s)) (take (dim_k h s) c) r_max of
             Inl e \<Rightarrow> Inl e
           | Inr outer \<Rightarrow> Inr (intersect1d outer inner)))"
proof -
  let ?x = "take (dim_k h s) c"
  obtain t s1 where t: "kd_tree s = (t, s1)" by (cases "kd_tree s")
  have s1: "kd_tree s1 = (t, s1)" "dim_k h s1 = dim_k h s"
    using kd_tree_again [of s] dim_k_kd_tree [of h s] t by simp_all
  show ?thesis
  proof (cases "ball_points h t ?x r_min")
    case (Inl e)
    then show ?thesis
      using t s1 by (simp add: sphere_def isinstance_Number_def ball_def query_ball_point_def)
  next
    case inner: (Inr inner)
    show ?thesis
    proof (cases "ball_points h t ?x r_max")
      case (Inl e)
      then show ?thesis
        using t s1 inner
        by (simp add: sphere_def isinstance_Number_def ball_def query_ball_point_def)
    next
      case (Inr outer)
      then show ?thesis
        using t s1 inner
        by (simp add: sphere_def isinstance_Number_def ball_def query_ball_point_def
            intersect1d_sort_key)
    qed
  qed
qed

lemma example_ball_1:
  "ball_points example_heap (fst (kd_tree example_index))
     (take (dim_k example_heap example_index) [3, 3]) 1 = Inr [23, 32, 33, 34, 43]"
  by code_simp

lemma example_ball_3_2:
  "ball_points example_heap (fst (kd_tree example_index))
     (take (dim_k example_heap example_index) [3, 3]) (3 / 2) =
   Inr [22, 23, 24, 32, 33, 34, 42, 43, 44]"
  by code_simp

lemma example_ball_0:
  "ball_points example_heap (fst (kd_tree example_index))
     (take (dim_k example_heap example_index) [3, 3]) 0 = Inr [33]"
  by code_simp

subsection \<open>The shell query\<close>

text \<open>
  C1.  The claim reads: \<open>sphere(c, r_min, r_max)\<close> is the outer ball without the inner
  ball.  The source returns \<open>np.intersect1d(outer, inner)\<close>, the identifiers that are
  in both balls.  On the index of the docstrings, with centre \<open>(3, 3)\<close>,
  \<open>r_min = 1\<close> and \<open>r_max = 1.5\<close>, the answer is the inner ball
  \<open>[23, 32, 33, 34, 43]\<close> (the value the docstring of \<open>sphere\<close> prints), and not
  the difference \<open>{22, 24, 42, 44}\<close> of the two balls: the outer ball holds the points
  22, 23, 24, 32, 33, 34, 42, 43 and 44, the inner ball the points 23, 32, 33, 34 and 43,
  each in the order of the traversal.
\<close>

theorem sphere_returns_inner_ball:
  "fst (sphere visit example_heap example_index [3, 3] 1 (3 / 2)) = Inr [23, 32, 33, 34, 43]
   \<and> (\<exists>outer.
         fst (ball visit example_heap example_index (Point [3, 3]) (Scalar (3 / 2)) 100000) =
           Inr (Ids outer)
         \<and> sort outer = [22, 23, 24, 32, 33, 34, 42, 43, 44])
   \<and> (\<exists>inner.
         fst (ball visit example_heap example_index (Point [3, 3]) (Scalar 1) 100000) =
           Inr (Ids inner)
         \<and> sort inner = [23, 32, 33, 34, 43])"
proof -
  have i: "intersect1d [22, 23, 24, 32, 33, 34, 42, 43, 44] [23, 32, 33, 34, 43]
      = [23, 32, 33, 34, 43]" by code_simp
  have s: "fst (sphere visit example_heap example_index [3, 3] 1 (3 / 2))
      = Inr [23, 32, 33, 34, 43]"
    by (simp only: sphere_eq example_ball_1 example_ball_3_2 sum.case i)
  have outer: "sort (sort_key f [22, 23, 24, 32, 33, 34, 42, 43, 44 :: nat])
      = [22, 23, 24, 32, 33, 34, 42, 43, 44]" for f :: "nat \<Rightarrow> nat"
    by (rule sort_sort_key) simp_all
  have inner: "sort (sort_key f [23, 32, 33, 34, 43 :: nat]) = [23, 32, 33, 34, 43]"
    for f :: "nat \<Rightarrow> nat"
    by (rule sort_sort_key) simp_all
  show ?thesis
    using s outer inner by (simp add: ball_point example_ball_1 example_ball_3_2)
qed

text \<open>
  C9.  The claim reads: \<open>sphere\<close> raises when \<open>r_min\<close> is not positive or
  \<open>r_max \<le> r_min\<close>.  The checks of the source are
  \<open>not isinstance(r_min, Number) and r_min > 0\<close> and
  \<open>not isinstance(r_max, Number) and r_max > r_min\<close>, which are false for every number.
  On the index of the docstrings, \<open>sphere((3, 3), 1.5, 1)\<close> and
  \<open>sphere((3, 3), 0, 1)\<close> raise nothing and return identifiers.
\<close>

theorem sphere_accepts_invalid_radii:
  "fst (sphere visit example_heap example_index [3, 3] (3 / 2) 1) = Inr [23, 32, 33, 34, 43]
   \<and> fst (sphere visit example_heap example_index [3, 3] 0 1) = Inr [33]"
proof -
  have i: "intersect1d [23, 32, 33, 34, 43] [22, 23, 24, 32, 33, 34, 42, 43, 44]
      = [23, 32, 33, 34, 43]" by code_simp
  have j: "intersect1d [23, 32, 33, 34, 43] [33] = [33]" by code_simp
  have a: "fst (sphere visit example_heap example_index [3, 3] (3 / 2) 1)
      = Inr [23, 32, 33, 34, 43]"
    by (simp only: sphere_eq example_ball_1 example_ball_3_2 sum.case i)
  have b: "fst (sphere visit example_heap example_index [3, 3] 0 1) = Inr [33]"
    by (simp only: sphere_eq example_ball_1 example_ball_0 sum.case j)
  from a b show ?thesis by simp
qed

subsection \<open>The R-tree is never built\<close>

text \<open>
  C2.  The claim reads: \<open>box\<close> returns the identifiers of the stored points inside the
  extent, from the lazily built R-tree.  The property \<open>r_tree\<close> calls
  \<open>self.dim()\<close>, and \<open>dim\<close> is a property: the call raises \<open>TypeError\<close>
  before any tree exists.  On the index of the docstrings, the box query with the extent
  \<open>(0, 0, 1, 1)\<close>, which holds the points 0, 1, 10 and 11, raises \<open>TypeError\<close>.
\<close>

theorem box_raises_TypeError:
  "fst (box example_heap example_index [0, 0, 1, 1]) = Inl TypeError"
  by code_simp

text \<open>
  C8.  The claim reads: each of the two structures is built on the first access and every
  later access returns the cached structure.  For the R-tree, the first access to
  \<open>r_tree\<close> on the index of the docstrings raises \<open>TypeError\<close> and leaves the
  index as it was, without \<open>_r_tree\<close>; the second access runs the same failing
  construction again.
\<close>

theorem r_tree_never_cached:
  "fst (r_tree example_heap example_index) = Inl TypeError
   \<and> snd (r_tree example_heap example_index) = example_index
   \<and> self_r_tree (snd (r_tree example_heap example_index)) = None
   \<and> fst (r_tree example_heap (snd (r_tree example_heap example_index))) = Inl TypeError"
  by code_simp

subsection \<open>The slice query\<close>

text \<open>
  C3.  The claim reads: \<open>slice\<close> returns the points whose value on the axis lies in
  \<open>[min_th, max_th]\<close>, bounds included.  The source takes
  \<open>order[bisect_left(min_th) - 1 : bisect_left(max_th)]\<close>.  On four points with the
  values 10, 20, 30 and 40 on the last axis, the slice from 20 to 20 returns point 0 (value
  10) and not point 1; the slice from 20 to 30 returns the points 0 and 1 and not 1 and 2;
  the slice from 10 to 40, which holds all four points, returns nothing.
\<close>

theorem slice_misses_bounds:
  "slice [column4, column4] example_index 20 20 (- 1) = Inr [0]
   \<and> slice [column4, column4] example_index 20 30 (- 1) = Inr [0, 1]
   \<and> slice [column4, column4] example_index 10 40 (- 1) = Inr []"
  by code_simp

subsection \<open>The upper and the lower ball\<close>

text \<open>
  C4.  The claim reads: \<open>upper_ball\<close> and \<open>lower_ball\<close> return the part of the ball
  above and below the centre.  Both look up \<open>self.ballCut\<close>, a name the class does not
  define (its method is \<open>ball_cut\<close>): on the index of the docstrings both raise
  \<open>AttributeError\<close>.
\<close>

theorem upper_lower_ball_raise:
  "fst (upper_ball visit example_heap example_index [3, 3] 1 (- 1)) = Inl AttributeError
   \<and> fst (lower_ball visit example_heap example_index [3, 3] 1 (- 1)) = Inl AttributeError"
  by (simp add: upper_ball_def lower_ball_def getattr_def IndexKD_attributes_def)

text \<open>
  Passed to \<open>ball_cut\<close> itself, the filter of \<open>upper_ball\<close>,
  \<open>pA[axis] > pB[axis]\<close> with the centre as \<open>pA\<close>, keeps the candidates below the
  centre: of the ball of radius 1 around \<open>(3, 3)\<close> it keeps point 32, which is
  \<open>(3, 2)\<close>.
\<close>

lemma filterE_total:
  "(\<And>x. x \<in> set xs \<Longrightarrow> f x = Inr (P x)) \<Longrightarrow> filterE f xs = Inr (filter P xs)"
  by (induction xs) simp_all

lemma ball_cut_upper_filter:
  "fst (ball_cut visit example_heap example_index [3, 3] 1
         (\<lambda>pA pB. compareE (\<lambda>a b. a > b) (pyindex pA (- 1)) (pyindex pB (- 1)))) = Inr [32]"
proof -
  let ?s1 = "snd (kd_tree example_index)"
  let ?f = "\<lambda>nId. case row example_heap ?s1 nId of
      Inl e \<Rightarrow> Inl e
    | Inr pB \<Rightarrow> compareE (\<lambda>a b. a > b) (pyindex [3, 3] (- 1)) (pyindex pB (- 1))"
  define l where "l = sort_key (visit (take (dim_k example_heap example_index) [3, 3]))
      [23, 32, 33, 34, 43]"
  have sl: "set l = set [23, 32, 33, 34, 43]" unfolding l_def by (rule set_sort)
  obtain b s1 where b: "ball visit example_heap example_index (Point [3, 3]) (Scalar 1) 100000
      = (b, s1)"
    by (cases "ball visit example_heap example_index (Point [3, 3]) (Scalar 1) 100000")
  have v: "b = Inr (Ids l)"
    using ball_point [of visit example_heap example_index "[3, 3]" 1 100000] b
    by (simp add: example_ball_1 l_def)
  have r: "s1 = ?s1"
    using ball_point_state [of visit example_heap example_index "[3, 3]" 1 100000] b by simp
  have each: "list_all (\<lambda>n. ?f n = Inr (n = 32)) [23, 32, 33, 34, 43]" by code_simp
  have all: "\<forall>n \<in> set l. ?f n = Inr (n = 32)"
    using each unfolding sl list_all_iff .
  have "filterE ?f l = Inr (filter (\<lambda>n. n = 32) l)"
    by (rule filterE_total) (use all in blast)
  also have "filter (\<lambda>n. n = 32) l = [32]"
    unfolding l_def filter_sort by simp
  finally show ?thesis
    using b v r by (simp add: ball_cut_def)
qed

subsection \<open>The shape of the answer of a ball query\<close>

lemma mapE_map_all_Inr:
  "(\<And>x. x \<in> set xs \<Longrightarrow> f (g x) = Inr (k x)) \<Longrightarrow> mapE f (map g xs) = Inr (map k xs)"
  by (induction xs) simp_all

lemma ball_points_ball_ids:
  assumes "cache_ok s" and "dim_k h s \<le> length x"
  shows "ball_points h (fst (kd_tree s)) (take (dim_k h s) x) r = Inr (ball_ids h s x r)"
  using assms
  by (simp add: ball_points_def kd_tree_data ball_ids_def dim_k_def coords_def len_def)

lemma ball_plain_list:
  "fst (ball visit h s (Points ps) (Scalar r) bulk) =
     map_sum id IdLists (query_ball_points h (fst (kd_tree s)) (take (dim_k h s) ps) r)"
proof -
  obtain t s1 where t: "kd_tree s = (t, s1)" by (cases "kd_tree s")
  then have "dim_k h s1 = dim_k h s" using dim_k_kd_tree [of h s] by simp
  with t show ?thesis by (simp add: ball_def)
qed

lemma ball_array:
  "0 < bulk \<Longrightarrow> fst (ball visit h s (Array a) (Scalar r) bulk) =
     map_sum id IdLists
       (query_ball_points h (fst (kd_tree s)) (map (take (dim_k h s)) a) r)"
  by (simp add: ball_def ball_iter_unchunked)

text \<open>
  C6.  The claim reads: with any batch of query points and a scalar radius, \<open>ball\<close>
  returns one list of identifiers per query point.  The docstring of \<open>ball\<close> takes
  \<open>coords\<close> as \<open>array_like\<close> and promises as much for a list of points.  But only
  a two-dimensional \<open>numpy.ndarray\<close> passes the test
  \<open>isinstance(coords, np.ndarray)\<close> of the bulk branch; a plain Python list of points
  reaches the single point branch, where \<open>coords[:self.dim]\<close> keeps its first
  \<open>dim\<close> points and drops the others.  On the two-dimensional index of the docstrings
  the list of the three query points \<open>(0, 0)\<close>, \<open>(1, 1)\<close> and \<open>(2, 2)\<close> gets
  two lists of identifiers, not the three lists of the balls around the three points.
\<close>

theorem ball_drops_query_points:
  "fst (ball visit example_heap example_index (Points [[0, 0], [1, 1], [2, 2]]) (Scalar 1)
          100000) =
     Inr (IdLists [[0, 1, 10], [1, 10, 11, 12, 21]])
   \<and> map (\<lambda>q. ball_ids example_heap example_index q 1) [[0, 0], [1, 1], [2, 2]] =
       [[0, 1, 10], [1, 10, 11, 12, 21], [12, 21, 22, 23, 32]]
   \<and> fst (ball visit example_heap example_index (Points [[0, 0], [1, 1], [2, 2]]) (Scalar 1)
            100000) \<noteq>
       Inr (IdLists (map (\<lambda>q. ball_ids example_heap example_index q 1)
                       [[0, 0], [1, 1], [2, 2]]))"
proof -
  have a: "query_ball_points example_heap (fst (kd_tree example_index))
      (take (dim_k example_heap example_index) [[0, 0], [1, 1], [2, 2]]) 1
      = Inr [[0, 1, 10], [1, 10, 11, 12, 21]]" by code_simp
  have b: "map (\<lambda>q. ball_ids example_heap example_index q 1) [[0, 0], [1, 1], [2, 2]] =
       [[0, 1, 10], [1, 10, 11, 12, 21], [12, 21, 22, 23, 32]]" by code_simp
  have c: "fst (ball visit example_heap example_index (Points [[0, 0], [1, 1], [2, 2]])
      (Scalar 1) 100000) = Inr (IdLists [[0, 1, 10], [1, 10, 11, 12, 21]])"
    unfolding ball_plain_list a by simp
  show ?thesis unfolding c b by simp
qed

text \<open>
  For a single point and for a batch given as a two-dimensional array the shapes are as
  claimed.  For every index (whose cached tree, if any, is its own) and every scalar radius,
  with the default or any other positive bulk size: the ball query at a single point with at
  least \<open>dim\<close> coordinates returns one flat list, the identifiers of the stored points
  within the radius in the order of the traversal, and the ball query at a two-dimensional
  array, of rows with at least \<open>dim\<close> coordinates, returns one ascending list of
  identifiers per query point, in the order of the batch.
\<close>

lemma ball_result_shapes:
  assumes "cache_ok self" and "0 < bulk"
    and "dim_k h self \<le> length x"
    and "\<forall>q \<in> set a. dim_k h self \<le> length q"
  shows "fst (ball visit h self (Point x) (Scalar r) bulk) =
           Inr (Ids (sort_key (visit (take (dim_k h self) x)) (ball_ids h self x r)))
       \<and> fst (ball visit h self (Array a) (Scalar r) bulk) =
           Inr (IdLists (map (\<lambda>q. ball_ids h self q r) a))"
proof -
  have rows: "query_ball_points h (fst (kd_tree self)) (map (take (dim_k h self)) a) r
      = Inr (map (\<lambda>q. ball_ids h self q r) a)"
    unfolding query_ball_points_def
    by (rule mapE_map_all_Inr) (use assms in \<open>simp add: ball_points_ball_ids\<close>)
  show ?thesis
    using assms rows by (simp add: ball_point ball_array ball_points_ball_ids)
qed

text \<open>
  The two calls of the docstring of \<open>ball\<close>, the first under the layout by
  identifier, and the two calls of \<open>ball\<close> in the docstring of \<open>sphere\<close>,
  under the second layout.
\<close>

lemma ball_docstring:
  "fst (ball by_identifier example_heap example_index (Point [0, 0]) (Scalar 1) 100000) =
     Inr (Ids [0, 1, 10])
   \<and> fst (ball visit example_heap example_index (Array [[0, 0], [1, 1]]) (Scalar 1) 100000) =
       Inr (IdLists [[0, 1, 10], [1, 10, 11, 12, 21]])
   \<and> fst (ball docstring_visit example_heap example_index (Point [3, 3]) (Scalar 1) 100000) =
       Inr (Ids [32, 34, 33, 43, 23])
   \<and> fst (ball docstring_visit example_heap example_index (Point [3, 3]) (Scalar (3 / 2))
            100000) =
       Inr (Ids [22, 42, 32, 34, 33, 43, 44, 23, 24])"
proof -
  have a: "fst (ball by_identifier example_heap example_index (Point [0, 0]) (Scalar 1)
      100000) = Inr (Ids [0, 1, 10])" by code_simp
  have b: "query_ball_points example_heap (fst (kd_tree example_index))
      (map (take (dim_k example_heap example_index)) [[0, 0], [1, 1]]) 1 =
      Inr [[0, 1, 10], [1, 10, 11, 12, 21]]" by code_simp
  have c: "fst (ball docstring_visit example_heap example_index (Point [3, 3]) (Scalar 1)
      100000) = Inr (Ids [32, 34, 33, 43, 23])" by code_simp
  have d: "fst (ball docstring_visit example_heap example_index (Point [3, 3])
      (Scalar (3 / 2)) 100000) = Inr (Ids [22, 42, 32, 34, 33, 43, 44, 23, 24])" by code_simp
  from a b c d show ?thesis by (simp add: ball_array)
qed

subsection \<open>The closest neighbour of a stored point\<close>







lemma answer_row_length:
  assumes "0 < len h s"
  shows "length (fst (answer_row visit h s x)) = 2 \<and> length (snd (answer_row visit h s x)) = 2"
  using assms by (auto simp: answer_row_def nearest2_def)

lemma query_two:
  assumes "cache_ok s" and "length x = dim_k h s"
  shows "query visit h (fst (kd_tree s)) x 2 = Inr (answer_row visit h s x)"
  using assms
  by (simp add: query_def kd_tree_data nearest2_def answer_row_def dim_k_def coords_def
      len_def Let_def)

lemma second_length_two: "length xs = 2 \<Longrightarrow> second xs = Inr (xs ! 1)"
  by (simp add: second_def pyindex_def)

lemma knn_point:
  "fst (knn visit h s (Point x) (KScalar k) bulk) =
     map_sum id (\<lambda>(dists, nIds). KnnPoint dists nIds)
       (query visit h (fst (kd_tree s)) (take (dim_k h s) x) k)"
proof -
  obtain t s1 where t: "kd_tree s = (t, s1)" by (cases "kd_tree s")
  then have "dim_k h s1 = dim_k h s" using dim_k_kd_tree [of h s] by simp
  with t show ?thesis by (simp add: knn_def)
qed

lemma row_length: "rectangular h s \<Longrightarrow> i < len h s \<Longrightarrow> length (coords h s ! i) = dim_k h s"
  by (simp add: rectangular_def list_all_iff len_def)

text \<open>
  \<open>closest\<close> at one stored identifier answers with the second entries of the answer of
  the tree for the coordinates of that point.
\<close>

lemma closest_one:
  assumes c: "cache_ok s" and rect: "rectangular h s" and i: "i < len h s"
  shows "fst (closest visit h s (OneId i)) =
     Inr (Nearest (fst (answer_row visit h s (coords h s ! i)) ! 1)
                  (snd (answer_row visit h s (coords h s ! i)) ! 1))"
proof -
  let ?x = "coords h s ! i"
  obtain ds ns where a: "answer_row visit h s ?x = (ds, ns)"
    by (cases "answer_row visit h s ?x")
  have l: "length ds = 2" "length ns = 2"
    using answer_row_length [of h s visit ?x] i a by simp_all
  have lx: "length ?x = dim_k h s" by (rule row_length [OF rect i])
  have q: "query visit h (fst (kd_tree s)) (take (dim_k h s) ?x) 2 = Inr (ds, ns)"
    using query_two [OF c lx] a lx by simp
  obtain r s1 where k: "knn visit h s (Point ?x) (KScalar 2) 100000 = (r, s1)"
    by (cases "knn visit h s (Point ?x) (KScalar 2) 100000")
  have r: "r = Inr (KnnPoint ds ns)"
    using knn_point [of visit h s ?x 2 100000] k q by simp
  show ?thesis
    using i k r a l by (simp add: closest_def second_length_two)
qed

lemma knn_array:
  assumes "0 < bulk"
  shows "fst (knn visit h s (Array a) (KScalar k) bulk) =
     (case query_rows visit h (fst (kd_tree s)) (map (take (dim_k h s)) a) k of
        Inl e \<Rightarrow> Inl e
      | Inr rows \<Rightarrow>
          if rows = [] then Inl ValueError
          else Inr (KnnRows (map fst rows) (map snd rows)))"
proof -
  obtain r s1 where k: "knn_iter visit h s a k bulk = (r, s1)"
    by (cases "knn_iter visit h s a k bulk")
  then have "r = query_rows visit h (fst (kd_tree s)) (map (take (dim_k h s)) a) k"
    using knn_iter_unchunked [OF assms, of visit h s a k] by simp
  with k show ?thesis by (simp add: knn_def split: sum.splits)
qed

text \<open>
  \<open>closest\<close> at a non-empty list of stored identifiers answers with the columns of
  those second entries; at the empty list it raises \<open>ValueError\<close>, because \<open>knn\<close>
  unpacks the two values of \<open>zip(*...)\<close> of a generator that yields nothing.
\<close>

lemma closest_list:
  assumes c: "cache_ok s" and rect: "rectangular h s"
    and l: "l \<noteq> []" and ok: "\<forall>i \<in> set l. i < len h s"
  shows "fst (closest visit h s (IdList l)) =
     Inr (NearestColumns (map (\<lambda>i. fst (answer_row visit h s (coords h s ! i)) ! 1) l)
                         (map (\<lambda>i. snd (answer_row visit h s (coords h s ! i)) ! 1) l))"
proof -
  let ?cs = "coords h s"
  let ?t = "fst (kd_tree s)"
  have pos: "0 < len h s" using l ok by (cases l) auto
  have len2: "length (fst (answer_row visit h s x)) = 2"
    "length (snd (answer_row visit h s x)) = 2" for x
    using answer_row_length [OF pos] by simp_all
  have q: "query visit h ?t (take (dim_k h s) (?cs ! i)) 2 = Inr (answer_row visit h s (?cs ! i))"
    if "i \<in> set l" for i
  proof -
    have "length (?cs ! i) = dim_k h s" using row_length [OF rect] ok that by blast
    then show ?thesis using query_two [OF c, of "?cs ! i"] by simp
  qed
  have rows: "query_rows visit h ?t (map (\<lambda>i. take (dim_k h s) (?cs ! i)) l) 2 =
      Inr (map (\<lambda>i. answer_row visit h s (?cs ! i)) l)"
    unfolding query_rows_def
    by (rule mapE_map_all_Inr) (simp add: q)
  have knn: "fst (knn visit h s (Array (map (\<lambda>i. ?cs ! i) l)) (KScalar 2) 100000) =
      Inr (KnnRows (map (\<lambda>i. fst (answer_row visit h s (?cs ! i))) l)
                   (map (\<lambda>i. snd (answer_row visit h s (?cs ! i))) l))"
    using l by (simp add: knn_array rows comp_def)
  have ds: "mapE second (map (\<lambda>i. fst (answer_row visit h s (?cs ! i))) l) =
      Inr (map (\<lambda>i. fst (answer_row visit h s (?cs ! i)) ! 1) l)"
    by (rule mapE_map_all_Inr) (simp add: second_length_two len2)
  have js: "mapE second (map (\<lambda>i. snd (answer_row visit h s (?cs ! i))) l) =
      Inr (map (\<lambda>i. snd (answer_row visit h s (?cs ! i)) ! 1) l)"
    by (rule mapE_map_all_Inr) (simp add: second_length_two len2)
  have valid: "list_all (\<lambda>i. i < len h s) l" using ok by (simp add: list_all_iff)
  obtain r s1 where k: "knn visit h s (Array (map (\<lambda>i. ?cs ! i) l)) (KScalar 2) 100000 = (r, s1)"
    by (cases "knn visit h s (Array (map (\<lambda>i. ?cs ! i) l)) (KScalar 2) 100000")
  show ?thesis
    using valid k knn ds js by (simp add: closest_def)
qed


text \<open>
  Two identifiers of the same coordinates get the same answer, whatever the order in which
  the tree lists neighbours at equal distance.
\<close>

lemma closest_same_coordinates:
  assumes "i < len h s" and "j < len h s" and "coords h s ! i = coords h s ! j"
  shows "fst (closest visit h s (OneId i)) = fst (closest visit h s (OneId j))"
  using assms by (simp add: closest_def)

lemma twins_facts:
  "cache_ok example_index" "rectangular [twins, twins] example_index"
  "len [twins, twins] example_index = 3"
  "coords [twins, twins] example_index ! 0 = [0, 0]"
  "coords [twins, twins] example_index ! 1 = [0, 0]"
  by code_simp+



text \<open>
  Under the layout by identifier the neighbours come as 0, 1 and point 1 is answered with
  itself; under the opposite layout they come as 1, 0 and point 0 is answered with itself.
\<close>

lemma closest_twins_layouts:
  "fst (closest by_identifier [twins, twins] example_index (OneId 1)) =
     Inr (Nearest (Finite 0) 1)
   \<and> fst (closest (\<lambda>x i. 2 - i) [twins, twins] example_index (OneId 0)) =
       Inr (Nearest (Finite 0) 0)"
proof -
  have c: "coords [twins, twins] example_index = twins" by code_simp
  have n1: "nearest2 by_identifier [twins, twins] example_index [0, 0] = [0, 1]"
    by code_simp
  have n2: "nearest2 (\<lambda>x i. 2 - i) [twins, twins] example_index [0, 0] = [1, 0]"
    by code_simp
  have d: "distance [0, 0] (twins ! 0) = 0" "distance [0, 0] (twins ! 1) = 0"
    by (simp_all add: distance_def sqdist_def twins_def)
  have a: "fst (closest by_identifier [twins, twins] example_index (OneId 1)) =
      Inr (Nearest (Finite 0) 1)"
    using closest_one [OF twins_facts(1,2), of 1 by_identifier] twins_facts(3,5) n1 d
    by (simp add: answer_row_def c)
  have b: "fst (closest (\<lambda>x i. 2 - i) [twins, twins] example_index (OneId 0)) =
      Inr (Nearest (Finite 0) 0)"
    using closest_one [OF twins_facts(1,2), of 0 "\<lambda>x i. 2 - i"] twins_facts(3,4) n2 d
    by (simp add: answer_row_def c)
  from a b show ?thesis by simp
qed




text \<open>
  The two calls of the docstring of \<open>closest\<close>, under the second layout: the closest
  neighbour of point 3 is point 4 at distance 1, and the closest neighbours of the points
  0, 2, 5 and 3 are the points 1, 1, 6 and 4.
\<close>

lemma closest_docstring:
  "fst (closest docstring_visit example_heap example_index (OneId 3)) =
     Inr (Nearest (Finite 1) 4)
   \<and> fst (closest docstring_visit example_heap example_index (IdList [0, 2, 5, 3])) =
       Inr (NearestColumns [Finite 1, Finite 1, Finite 1, Finite 1] [1, 1, 6, 4])"
proof -
  have c: "cache_ok example_index" by code_simp
  have r: "rectangular example_heap example_index" by code_simp
  have n: "len example_heap example_index = 50" by code_simp
  have near: "map (\<lambda>i. nearest2 docstring_visit example_heap example_index
        (coords example_heap example_index ! i)) [0, 2, 5, 3]
      = [[0, 1], [2, 1], [5, 6], [3, 4]]" by code_simp
  have d: "map (\<lambda>(i, j). sqdist (coords example_heap example_index ! i)
        (coords example_heap example_index ! j)) [(0, 1), (2, 1), (5, 6), (3, 4)]
      = [1, 1, 1, 1]" by code_simp
  have one: "fst (closest docstring_visit example_heap example_index (OneId 3)) =
      Inr (Nearest (Finite 1) 4)"
    using closest_one [OF c r, of 3 docstring_visit] near d
    by (simp add: n answer_row_def distance_def)
  have many: "fst (closest docstring_visit example_heap example_index (IdList [0, 2, 5, 3])) =
      Inr (NearestColumns [Finite 1, Finite 1, Finite 1, Finite 1] [1, 1, 6, 4])"
    using closest_list [OF c r, of "[0, 2, 5, 3]" docstring_visit] near d
    by (simp add: n answer_row_def distance_def)
  from one many show ?thesis by simp
qed

subsection \<open>The index owns its coordinate array\<close>

text \<open>
  A query leaves the index as it was or with its kd-tree cached; it reads the store at the
  coordinate array of the index only.
\<close>

lemma kd_tree_fixed: "snd (kd_tree (snd (kd_tree s))) = snd (kd_tree s)"
  by (simp add: kd_tree_again)

lemma ball_iter_loop_state:
  "snd (ball_iter_loop h s cs r bulk is) = s \<or>
   snd (ball_iter_loop h s cs r bulk is) = snd (kd_tree s)"
proof (induction "is" arbitrary: s)
  case Nil
  show ?case by simp
next
  case (Cons i "is")
  obtain t s1 where t: "kd_tree s = (t, s1)" by (cases "kd_tree s")
  have "snd (kd_tree s1) = s1" using kd_tree_fixed [of s] t by simp
  then show ?case using Cons.IH [of s1] t by (auto split: sum.splits)
qed

lemma knn_iter_loop_state:
  "snd (knn_iter_loop visit h s cs k bulk is) = s \<or>
   snd (knn_iter_loop visit h s cs k bulk is) = snd (kd_tree s)"
proof (induction "is" arbitrary: s)
  case Nil
  show ?case by simp
next
  case (Cons i "is")
  obtain t s1 where t: "kd_tree s = (t, s1)" by (cases "kd_tree s")
  have "snd (kd_tree s1) = s1" using kd_tree_fixed [of s] t by simp
  then show ?case using Cons.IH [of s1] t by (auto split: sum.splits)
qed

lemma balls_iter_state:
  "snd (balls_iter visit h s ps) = s \<or> snd (balls_iter visit h s ps) = snd (kd_tree s)"
proof (induction ps arbitrary: s)
  case Nil
  show ?case by simp
next
  case (Cons p ps)
  obtain c r where p: "p = (c, r)" by (cases p)
  obtain t s1 where t: "kd_tree s = (t, s1)" by (cases "kd_tree s")
  have "snd (kd_tree s1) = s1" using kd_tree_fixed [of s] t by simp
  then show ?case using Cons.IH [of s1] t p by (auto split: sum.splits)
qed

lemma ball_state: "snd (ball visit h s q r bulk) = s \<or> snd (ball visit h s q r bulk) = snd (kd_tree s)"
proof -
  obtain t s1 where t: "kd_tree s = (t, s1)" by (cases "kd_tree s")
  show ?thesis
    using t ball_iter_loop_state [of h s] balls_iter_state [of visit h s]
    by (auto simp: ball_def ball_iter_def split: radius.splits query_coords.splits)
qed

lemma knn_iter_state:
  "snd (knn_iter visit h s cs k bulk) = s \<or> snd (knn_iter visit h s cs k bulk) = snd (kd_tree s)"
  using knn_iter_loop_state [of visit h s cs k bulk]
  by (simp add: knn_iter_def)

lemma knn_state: "snd (knn visit h s q k bulk) = s \<or> snd (knn visit h s q k bulk) = snd (kd_tree s)"
proof (cases k)
  case (KList ks)
  then show ?thesis by (simp add: knn_def)
next
  case (KScalar k1)
  show ?thesis
  proof (cases q)
    case (Array a)
    obtain r s' where it: "knn_iter visit h s a k1 bulk = (r, s')"
      by (cases "knn_iter visit h s a k1 bulk")
    then have "s' = s \<or> s' = snd (kd_tree s)"
      using knn_iter_state [of visit h s a k1 bulk] by simp
    then show ?thesis
      using KScalar Array it by (cases r) (auto simp: knn_def)
  next
    case (Point x)
    then show ?thesis using KScalar by (simp add: knn_def split: prod.splits)
  next
    case (Points ps)
    then show ?thesis using KScalar by (simp add: knn_def split: prod.splits)
  qed
qed


lemma coords_cong:
  "deref h1 (self_coords s) = deref h2 (self_coords s) \<Longrightarrow> coords h1 s = coords h2 s"
  by (simp add: coords_def)

lemma dim_k_cong:
  "deref h1 (self_coords s) = deref h2 (self_coords s) \<Longrightarrow> dim_k h1 s = dim_k h2 s"
  by (simp add: dim_k_def coords_def)

lemma len_cong:
  "deref h1 (self_coords s) = deref h2 (self_coords s) \<Longrightarrow> len h1 s = len h2 s"
  by (simp add: len_def coords_def)

lemma ball_points_cong:
  "deref h1 (kd_data t) = deref h2 (kd_data t) \<Longrightarrow> ball_points h1 t = ball_points h2 t"
  by (intro ext) (simp add: ball_points_def)

lemma query_ball_point_cong:
  assumes "deref h1 (kd_data t) = deref h2 (kd_data t)"
  shows "query_ball_point visit h1 t = query_ball_point visit h2 t"
  by (intro ext) (simp add: query_ball_point_def ball_points_cong [OF assms])

lemma query_cong:
  "deref h1 (kd_data t) = deref h2 (kd_data t) \<Longrightarrow> query visit h1 t = query visit h2 t"
  by (intro ext) (simp add: query_def)

lemma query_ball_points_cong:
  assumes "deref h1 (kd_data t) = deref h2 (kd_data t)"
  shows "query_ball_points h1 t = query_ball_points h2 t"
  unfolding query_ball_points_def ball_points_cong [OF assms] ..

lemma query_rows_cong:
  assumes "deref h1 (kd_data t) = deref h2 (kd_data t)"
  shows "query_rows visit h1 t = query_rows visit h2 t"
  unfolding query_rows_def query_cong [OF assms] ..

lemma kd_tree_step:
  assumes "deref h1 (self_coords s) = deref h2 (self_coords s)" and "cache_ok s"
    and "kd_tree s = (t, s1)"
  shows "deref h1 (kd_data t) = deref h2 (kd_data t)"
    and "deref h1 (self_coords s1) = deref h2 (self_coords s1)"
    and "cache_ok s1" and "dim_k h1 s1 = dim_k h2 s1"
proof -
  have t: "kd_data t = self_coords s" using kd_tree_data [OF assms(2)] assms(3) by simp
  have s1: "self_coords s1 = self_coords s" using kd_tree_coords [of s] assms(3) by simp
  show "deref h1 (kd_data t) = deref h2 (kd_data t)" using assms(1) t by simp
  show a: "deref h1 (self_coords s1) = deref h2 (self_coords s1)" using assms(1) s1 by simp
  show "cache_ok s1" using kd_tree_cache_ok [OF assms(2)] assms(3) by simp
  show "dim_k h1 s1 = dim_k h2 s1" by (rule dim_k_cong [OF a])
qed

lemma ball_iter_loop_cong:
  assumes "deref h1 (self_coords s) = deref h2 (self_coords s)" and "cache_ok s"
  shows "ball_iter_loop h1 s cs r bulk is = ball_iter_loop h2 s cs r bulk is"
  using assms
proof (induction "is" arbitrary: s)
  case Nil
  show ?case by simp
next
  case (Cons i "is")
  obtain t s1 where t: "kd_tree s = (t, s1)" by (cases "kd_tree s")
  note st = kd_tree_step [OF Cons.prems t]
  have q: "query_ball_points h1 t = query_ball_points h2 t"
    by (rule query_ball_points_cong [OF st(1)])
  have rest: "ball_iter_loop h1 s1 cs r bulk is = ball_iter_loop h2 s1 cs r bulk is"
    by (rule Cons.IH [OF st(2) st(3)])
  show ?case
    unfolding ball_iter_loop.simps t prod.case q st(4) rest ..
qed

lemma knn_iter_loop_cong:
  assumes "deref h1 (self_coords s) = deref h2 (self_coords s)" and "cache_ok s"
  shows "knn_iter_loop visit h1 s cs k bulk is = knn_iter_loop visit h2 s cs k bulk is"
  using assms
proof (induction "is" arbitrary: s)
  case Nil
  show ?case by simp
next
  case (Cons i "is")
  obtain t s1 where t: "kd_tree s = (t, s1)" by (cases "kd_tree s")
  note st = kd_tree_step [OF Cons.prems t]
  have q: "query_rows visit h1 t = query_rows visit h2 t"
    by (rule query_rows_cong [OF st(1)])
  have rest: "knn_iter_loop visit h1 s1 cs k bulk is = knn_iter_loop visit h2 s1 cs k bulk is"
    by (rule Cons.IH [OF st(2) st(3)])
  show ?case
    unfolding knn_iter_loop.simps t prod.case q st(4) rest ..
qed

lemma balls_iter_cong:
  assumes "deref h1 (self_coords s) = deref h2 (self_coords s)" and "cache_ok s"
  shows "balls_iter visit h1 s ps = balls_iter visit h2 s ps"
  using assms
proof (induction ps arbitrary: s)
  case Nil
  show ?case by simp
next
  case (Cons p ps)
  obtain c r where p: "p = (c, r)" by (cases p)
  obtain t s1 where t: "kd_tree s = (t, s1)" by (cases "kd_tree s")
  note st = kd_tree_step [OF Cons.prems t]
  have q: "query_ball_point visit h1 t = query_ball_point visit h2 t"
    by (rule query_ball_point_cong [OF st(1)])
  have rest: "balls_iter visit h1 s1 ps = balls_iter visit h2 s1 ps"
    by (rule Cons.IH [OF st(2) st(3)])
  show ?case
    unfolding p balls_iter.simps t prod.case q st(4) rest ..
qed


lemma ball_cong:
  assumes "deref h1 (self_coords s) = deref h2 (self_coords s)" and "cache_ok s"
  shows "ball visit h1 s q r bulk = ball visit h2 s q r bulk"
proof -
  obtain t s1 where t: "kd_tree s = (t, s1)" by (cases "kd_tree s")
  note st = kd_tree_step [OF assms t]
  have q1: "query_ball_point visit h1 t = query_ball_point visit h2 t"
    by (rule query_ball_point_cong [OF st(1)])
  have q2: "query_ball_points h1 t = query_ball_points h2 t"
    by (rule query_ball_points_cong [OF st(1)])
  have l1: "ball_iter h1 s = ball_iter h2 s"
    by (intro ext) (simp add: ball_iter_def ball_iter_loop_cong [OF assms])
  have l2: "balls_iter visit h1 s = balls_iter visit h2 s"
    by (intro ext) (rule balls_iter_cong [OF assms])
  show ?thesis
    unfolding ball_def t prod.case q1 q2 l1 l2 st(4) ..
qed

lemma knn_cong:
  assumes "deref h1 (self_coords s) = deref h2 (self_coords s)" and "cache_ok s"
  shows "knn visit h1 s q k bulk = knn visit h2 s q k bulk"
proof -
  obtain t s1 where t: "kd_tree s = (t, s1)" by (cases "kd_tree s")
  note st = kd_tree_step [OF assms t]
  have q1: "query visit h1 t = query visit h2 t" by (rule query_cong [OF st(1)])
  have q2: "query_rows visit h1 t = query_rows visit h2 t" by (rule query_rows_cong [OF st(1)])
  have l1: "knn_iter visit h1 s = knn_iter visit h2 s"
    by (intro ext) (simp add: knn_iter_def knn_iter_loop_cong [OF assms])
  show ?thesis
    unfolding knn_def t prod.case q1 q2 l1 st(4) ..
qed

lemma slice_cong:
  assumes "deref h1 (self_coords s) = deref h2 (self_coords s)"
  shows "slice h1 s lo hi axis = slice h2 s lo hi axis"
  unfolding slice_def coords_cong [OF assms] dim_k_cong [OF assms] ..

lemma closest_cong:
  assumes "deref h1 (self_coords s) = deref h2 (self_coords s)" and "cache_ok s"
  shows "closest visit h1 s is = closest visit h2 s is"
proof -
  have k: "knn visit h1 s = knn visit h2 s" by (intro ext) (rule knn_cong [OF assms])
  show ?thesis
    unfolding closest_def coords_cong [OF assms(1)] len_cong [OF assms(1)] k ..
qed

lemma ball_keeps:
  assumes "deref h1 (self_coords s) = deref h2 (self_coords s)" and "cache_ok s"
  shows "deref h1 (self_coords (snd (ball visit h s q r bulk)))
           = deref h2 (self_coords (snd (ball visit h s q r bulk)))"
    and "cache_ok (snd (ball visit h s q r bulk))"
proof -
  have "snd (ball visit h s q r bulk) = s \<or> snd (ball visit h s q r bulk) = snd (kd_tree s)"
    by (rule ball_state)
  then show "deref h1 (self_coords (snd (ball visit h s q r bulk)))
           = deref h2 (self_coords (snd (ball visit h s q r bulk)))"
    using assms(1) kd_tree_coords [of s] by auto
  from \<open>snd (ball visit h s q r bulk) = s \<or> snd (ball visit h s q r bulk) = snd (kd_tree s)\<close>
  show "cache_ok (snd (ball visit h s q r bulk))"
    using assms(2) kd_tree_cache_ok [of s] by auto
qed

lemma sphere_cong:
  assumes "deref h1 (self_coords s) = deref h2 (self_coords s)" and "cache_ok s"
  shows "sphere visit h1 s c r_min r_max = sphere visit h2 s c r_min r_max"
proof -
  let ?b = "ball visit h2 s (Point (take (dim_k h2 s) c)) (Scalar r_min) 100000"
  obtain r s1 where b: "?b = (r, s1)" by (cases ?b)
  have k: "deref h1 (self_coords s1) = deref h2 (self_coords s1)" "cache_ok s1"
    using ball_keeps [OF assms, of visit h2 "Point (take (dim_k h2 s) c)" "Scalar r_min" 100000] b
    by simp_all
  have b1: "ball visit h1 s = ball visit h2 s" by (intro ext) (rule ball_cong [OF assms])
  have b2: "ball visit h1 s1 = ball visit h2 s1" by (intro ext) (rule ball_cong [OF k])
  show ?thesis
  proof (cases r)
    case (Inl e)
    then show ?thesis
      unfolding sphere_def b1 dim_k_cong [OF assms(1)] using b by simp
  next
    case (Inr inner)
    then show ?thesis
      unfolding sphere_def b1 dim_k_cong [OF assms(1)] using b b2 dim_k_cong [OF k(1)]
      by simp
  qed
qed


lemma ensure_coords_Inr: "ensure_coords h a = Inr c \<Longrightarrow> c = a \<and> a < length h"
  by (auto simp: ensure_coords_def deref_def split: if_splits)

lemma IndexKD_init_fresh:
  assumes "IndexKD_init et tt h a T leafsize quickbuild = Inr (h1, self)"
  shows "a < length h" and "length h \<le> self_coords self" and "self_coords self < length h1"
    and "length h \<le> length h1" and "cache_ok self"
proof -
  obtain c where c: "ensure_coords h a = Inr c"
    using assms by (auto simp: IndexKD_init_def split: sum.splits)
  then show "a < length h" using ensure_coords_Inr by blast
  show "length h \<le> self_coords self"
    using assms c
    by (auto simp: IndexKD_init_def np_copy_def isinstance_int_def
        split: sum.splits option.splits if_splits)
  show "self_coords self < length h1"
    using assms c
    by (auto simp: IndexKD_init_def np_copy_def isinstance_int_def
        split: sum.splits option.splits if_splits)
  show "length h \<le> length h1"
    using assms c
    by (auto simp: IndexKD_init_def np_copy_def isinstance_int_def
        split: sum.splits option.splits if_splits)
  show "cache_ok self"
    using assms c
    by (auto simp: IndexKD_init_def np_copy_def isinstance_int_def cache_ok_def
        split: sum.splits option.splits if_splits)
qed

lemma IndexKD_init_snapshot:
  assumes "IndexKD_init et tt h a None leafsize quickbuild = Inr (h1, self)"
  shows "coords h1 self = deref h a"
proof -
  obtain c where c: "ensure_coords h a = Inr c"
    using assms by (auto simp: IndexKD_init_def split: sum.splits)
  then have "c = a" using ensure_coords_Inr by blast
  with assms c show ?thesis
    by (auto simp: IndexKD_init_def np_copy_def isinstance_int_def coords_def deref_def
        split: if_splits)
qed

lemma deref_np_assign: "b \<noteq> a \<Longrightarrow> deref (np_assign h a xs) b = deref h b"
  by (simp add: deref_def np_assign_def)

text \<open>
  C10.  \<open>__init__\<close> stores (or transforms) a copy of the coordinate array it is given:
  the array of the index is at an address that did not exist before the construction.  So
  for every index that \<open>__init__\<close> returns, in whatever later state \<open>s\<close> of its
  cached attributes, an assignment \<open>xs\<close> into the caller's array at address \<open>a\<close>
  changes neither the coordinates the index reads nor the answer (and the index returned) of
  a ball, shell, nearest neighbour, closest neighbour or slice query.
\<close>

theorem init_copies_coords:
  assumes "IndexKD_init et tt h a T leafsize quickbuild = Inr (h1, self)"
    and "self_coords s = self_coords self" and "cache_ok s"
  shows "coords (np_assign h1 a xs) s = coords h1 s
       \<and> ball visit (np_assign h1 a xs) s q r bulk = ball visit h1 s q r bulk
       \<and> sphere visit (np_assign h1 a xs) s c r_min r_max = sphere visit h1 s c r_min r_max
       \<and> knn visit (np_assign h1 a xs) s q k bulk = knn visit h1 s q k bulk
       \<and> closest visit (np_assign h1 a xs) s is = closest visit h1 s is
       \<and> slice (np_assign h1 a xs) s min_th max_th axis = slice h1 s min_th max_th axis"
proof -
  have "self_coords s \<noteq> a"
    using IndexKD_init_fresh(1,2) [OF assms(1)] assms(2) by simp
  then have same: "deref (np_assign h1 a xs) (self_coords s) = deref h1 (self_coords s)"
    by (rule deref_np_assign)
  show ?thesis
    using coords_cong [OF same] ball_cong [OF same assms(3)] sphere_cong [OF same assms(3)]
      knn_cong [OF same assms(3)] closest_cong [OF same assms(3)] slice_cong [OF same]
    by simp
qed

theorem init_copies_coords_witness:
  "IndexKD_init Inr (\<lambda>c T. Inr c) [grid] 0 None 16 True = Inr (example_heap, example_index)
   \<and> self_coords example_index = self_coords example_index
   \<and> cache_ok example_index
   \<and> coords (np_assign example_heap 0 [[9, 9]]) example_index = grid
   \<and> fst (ball by_identifier (np_assign example_heap 0 [[9, 9]]) example_index (Point [0, 0])
           (Scalar 1) 100000) = Inr (Ids [0, 1, 10])
   \<and> fst (sphere by_identifier (np_assign example_heap 0 [[9, 9]]) example_index [3, 3] 1
           (3 / 2)) =
       fst (sphere by_identifier example_heap example_index [3, 3] 1 (3 / 2))
   \<and> knn by_identifier (np_assign example_heap 0 [[9, 9]]) example_index (Point [0, 0])
         (KScalar 2) 100000 =
       knn by_identifier example_heap example_index (Point [0, 0]) (KScalar 2) 100000
   \<and> closest by_identifier (np_assign example_heap 0 [[9, 9]]) example_index (OneId 3) =
       closest by_identifier example_heap example_index (OneId 3)
   \<and> slice (np_assign example_heap 0 [[9, 9]]) example_index 2 3 (- 1) = Inr [2, 12, 22, 32, 41, 42]"
proof -
  have i: "IndexKD_init Inr (\<lambda>c T. Inr c) [grid] 0 None 16 True
      = Inr (example_heap, example_index)" by code_simp
  have e: "self_coords example_index = self_coords example_index" by simp
  have c: "cache_ok example_index" by code_simp
  have v1: "coords example_heap example_index = grid" by code_simp
  have v2: "fst (ball by_identifier example_heap example_index (Point [0, 0]) (Scalar 1) 100000)
      = Inr (Ids [0, 1, 10])" by code_simp
  have v3: "slice example_heap example_index 2 3 (- 1) = Inr [2, 12, 22, 32, 41, 42]"
    by code_simp
  show ?thesis
    using init_copies_coords [OF i e c, of "[[9, 9]]" by_identifier "Point [0, 0]" "Scalar 1" 100000
        "[3, 3]" 1 "3 / 2" "KScalar 2" "OneId 3" 2 3 "- 1"] i c v1 v2 v3
    by simp
qed

end
